theory Spec2Isabelle
  imports Complex_Main "HOL-Library.Word"
begin

section \<open>JavaScript numbers\<close>

text \<open>
  The renderers compute with JavaScript numbers. A number is modelled as an exact real
  or one of the three special values of IEEE arithmetic; the special values arise in the
  source from divisions by zero (\<open>0 / 0\<close> is \<open>NaN\<close>, \<open>x / 0\<close> is an infinity) and
  propagate through every later operation, so they are kept. Rounding to 53 bits and
  the sign of zero are not modelled: finite results are exact.

  Numbers that the source only counts with are integers of the model: the tick counters,
  the energy level and its timer, which are incremented by one or reset, are natural
  numbers; the length given with the frequency buffer is an integer; the pixel dimensions
  of a canvas are natural numbers. The width and height given to \<open>resize\<close> and the
  device pixel ratio are finite numbers.
\<close>

datatype jsnum = Finite real | PosInfinity | NegInfinity | NaN

definition signed_infinity :: "real \<Rightarrow> jsnum" where
  "signed_infinity s = (if s > 0 then PosInfinity else if s < 0 then NegInfinity else NaN)"

fun js_neg :: "jsnum \<Rightarrow> jsnum" where
  "js_neg (Finite a) = Finite (- a)"
| "js_neg PosInfinity = NegInfinity"
| "js_neg NegInfinity = PosInfinity"
| "js_neg NaN = NaN"

fun js_add :: "jsnum \<Rightarrow> jsnum \<Rightarrow> jsnum" where
  "js_add NaN _ = NaN"
| "js_add _ NaN = NaN"
| "js_add (Finite a) (Finite b) = Finite (a + b)"
| "js_add PosInfinity NegInfinity = NaN"
| "js_add NegInfinity PosInfinity = NaN"
| "js_add PosInfinity _ = PosInfinity"
| "js_add NegInfinity _ = NegInfinity"
| "js_add _ PosInfinity = PosInfinity"
| "js_add _ NegInfinity = NegInfinity"

definition js_sub :: "jsnum \<Rightarrow> jsnum \<Rightarrow> jsnum" where
  "js_sub a b = js_add a (js_neg b)"

fun js_mul :: "jsnum \<Rightarrow> jsnum \<Rightarrow> jsnum" where
  "js_mul NaN _ = NaN"
| "js_mul _ NaN = NaN"
| "js_mul (Finite a) (Finite b) = Finite (a * b)"
| "js_mul (Finite a) PosInfinity = signed_infinity a"
| "js_mul (Finite a) NegInfinity = signed_infinity (- a)"
| "js_mul PosInfinity (Finite b) = signed_infinity b"
| "js_mul NegInfinity (Finite b) = signed_infinity (- b)"
| "js_mul PosInfinity PosInfinity = PosInfinity"
| "js_mul NegInfinity NegInfinity = PosInfinity"
| "js_mul PosInfinity NegInfinity = NegInfinity"
| "js_mul NegInfinity PosInfinity = NegInfinity"

fun js_div :: "jsnum \<Rightarrow> jsnum \<Rightarrow> jsnum" where
  "js_div NaN _ = NaN"
| "js_div _ NaN = NaN"
| "js_div (Finite a) (Finite b) = (if b = 0 then signed_infinity a else Finite (a / b))"
| "js_div (Finite a) _ = Finite 0"
| "js_div PosInfinity (Finite b) = (if b < 0 then NegInfinity else PosInfinity)"
| "js_div NegInfinity (Finite b) = (if b < 0 then PosInfinity else NegInfinity)"
| "js_div _ _ = NaN"

definition trunc :: "real \<Rightarrow> int" where
  "trunc r = (if r < 0 then \<lceil>r\<rceil> else \<lfloor>r\<rfloor>)"

text \<open>The remainder operator \<open>%\<close>: the result has the sign of the dividend.\<close>

fun js_rem :: "jsnum \<Rightarrow> jsnum \<Rightarrow> jsnum" where
  "js_rem NaN _ = NaN"
| "js_rem _ NaN = NaN"
| "js_rem (Finite a) (Finite b) =
     (if b = 0 then NaN else Finite (a - b * of_int (trunc (a / b))))"
| "js_rem (Finite a) _ = Finite a"
| "js_rem _ _ = NaN"

text \<open>Comparisons: every comparison with \<open>NaN\<close> is false.\<close>

fun js_lt :: "jsnum \<Rightarrow> jsnum \<Rightarrow> bool" where
  "js_lt (Finite a) (Finite b) = (a < b)"
| "js_lt NegInfinity (Finite _) = True"
| "js_lt NegInfinity PosInfinity = True"
| "js_lt (Finite _) PosInfinity = True"
| "js_lt _ _ = False"

fun js_le :: "jsnum \<Rightarrow> jsnum \<Rightarrow> bool" where
  "js_le NaN _ = False"
| "js_le _ NaN = False"
| "js_le (Finite a) (Finite b) = (a \<le> b)"
| "js_le NegInfinity _ = True"
| "js_le _ PosInfinity = True"
| "js_le _ _ = False"

definition js_gt :: "jsnum \<Rightarrow> jsnum \<Rightarrow> bool" where
  "js_gt a b = js_lt b a"

definition js_ge :: "jsnum \<Rightarrow> jsnum \<Rightarrow> bool" where
  "js_ge a b = js_le b a"

fun Math_floor :: "jsnum \<Rightarrow> jsnum" where
  "Math_floor (Finite a) = Finite (of_int \<lfloor>a\<rfloor>)"
| "Math_floor v = v"

fun Math_abs :: "jsnum \<Rightarrow> jsnum" where
  "Math_abs (Finite a) = Finite \<bar>a\<bar>"
| "Math_abs NaN = NaN"
| "Math_abs _ = PosInfinity"

fun Math_sqrt :: "jsnum \<Rightarrow> jsnum" where
  "Math_sqrt (Finite a) = (if a < 0 then NaN else Finite (sqrt a))"
| "Math_sqrt PosInfinity = PosInfinity"
| "Math_sqrt _ = NaN"

fun Math_sin :: "jsnum \<Rightarrow> jsnum" where
  "Math_sin (Finite a) = Finite (sin a)"
| "Math_sin _ = NaN"

fun Math_cos :: "jsnum \<Rightarrow> jsnum" where
  "Math_cos (Finite a) = Finite (cos a)"
| "Math_cos _ = NaN"

definition atan2 :: "real \<Rightarrow> real \<Rightarrow> real" where
  "atan2 y x =
     (if x > 0 then arctan (y / x)
      else if x < 0 then (if y \<ge> 0 then arctan (y / x) + pi else arctan (y / x) - pi)
      else if y > 0 then pi / 2
      else if y < 0 then - (pi / 2)
      else 0)"

fun Math_atan2 :: "jsnum \<Rightarrow> jsnum \<Rightarrow> jsnum" where
  "Math_atan2 NaN _ = NaN"
| "Math_atan2 _ NaN = NaN"
| "Math_atan2 (Finite y) (Finite x) = Finite (atan2 y x)"
| "Math_atan2 (Finite y) PosInfinity = Finite 0"
| "Math_atan2 (Finite y) NegInfinity = Finite (if y \<ge> 0 then pi else - pi)"
| "Math_atan2 PosInfinity (Finite x) = Finite (pi / 2)"
| "Math_atan2 NegInfinity (Finite x) = Finite (- (pi / 2))"
| "Math_atan2 PosInfinity PosInfinity = Finite (pi / 4)"
| "Math_atan2 PosInfinity NegInfinity = Finite (3 * pi / 4)"
| "Math_atan2 NegInfinity PosInfinity = Finite (- (pi / 4))"
| "Math_atan2 NegInfinity NegInfinity = Finite (- (3 * pi / 4))"

text \<open>
  \<open>v | 0\<close>: the number is truncated toward zero and wrapped into a signed 32-bit integer.
\<close>

definition to_int32 :: "real \<Rightarrow> int" where
  "to_int32 r = sint (word_of_int (trunc r) :: 32 word)"

section \<open>The environment of a renderer\<close>

text \<open>
  \<open>Math.random()\<close> is a supply of numbers in \<open>[0, 1)\<close>: \<open>rs i\<close> is the result of
  the \<open>i\<close>-th call from now, and \<open>skip n rs\<close> is the supply after \<open>n\<close> calls.
\<close>

type_synonym random_source = "nat \<Rightarrow> real"

definition skip :: "nat \<Rightarrow> random_source \<Rightarrow> random_source" where
  "skip n rs = (\<lambda>i. rs (i + n))"

definition unit_interval :: "random_source \<Rightarrow> bool" where
  "unit_interval rs = (\<forall>i. 0 \<le> rs i \<and> rs i < 1)"

text \<open>
  A canvas has its pixel dimensions and the answer of \<open>getContext('2d')\<close>, which is
  \<open>null\<close> (\<open>None\<close>) when the drawing context cannot be acquired. The operations of the
  drawing context itself belong to the platform: the draw routines of the renderers only
  read renderer state and issue such operations, so they are left out of the model, and
  the only failure of a draw that the model keeps is the one the language raises, the
  \<open>TypeError\<close> of a member access on \<open>null\<close>. An exception that a drawing operation
  raises on its arguments (a colour that does not parse, a negative radius) is the
  platform's and is not recorded: \<open>raised = None\<close> says that no context was \<open>null\<close>,
  not that every drawing call succeeded. The fields that \<open>render\<close> writes before its
  draw routines run (the tick counter, the hue offset, the segment count, the energy
  level and its timer) are as the source leaves them in either case.
\<close>

datatype CanvasRenderingContext2D = CanvasRenderingContext2D

record HTMLCanvasElement =
  width :: nat
  height :: nat
  getContext_2d :: "CanvasRenderingContext2D option"

datatype js_error = TypeError

text \<open>
  What a call of \<open>render\<close> leaves behind: the exception it raised, if any, the
  renderer, and the contents of the frequency buffer it was given.
\<close>

record 'r outcome =
  raised :: "js_error option"
  renderer :: 'r
  dataArray_after :: "8 word list"

section \<open>Reading the frequency buffer\<close>

text \<open>\<open>dataArray[i] ?? 0\<close>: an index outside the array reads as \<open>0\<close>.\<close>

definition at_or_0 :: "8 word list \<Rightarrow> int \<Rightarrow> nat" where
  "at_or_0 dataArray i =
     (if 0 \<le> i \<and> i < int (length dataArray) then unat (dataArray ! nat i) else 0)"

text \<open>\<open>for (let i = startIndex; i < endIndex; i++) sum += dataArray[i] ?? 0\<close>\<close>

function sum_loop :: "8 word list \<Rightarrow> int \<Rightarrow> int \<Rightarrow> nat \<Rightarrow> nat" where
  "sum_loop dataArray i endIndex sum_acc =
     (if i < endIndex then sum_loop dataArray (i + 1) endIndex (sum_acc + at_or_0 dataArray i)
      else sum_acc)"
  by pat_completeness auto
termination
  by (relation "measure (\<lambda>(d, i, e, s). nat (e - i))") auto

declare sum_loop.simps [simp del]

section \<open>ChemicalOrbitalsRenderer\<close>

record Electron =
  x :: jsnum
  y :: jsnum
  z :: jsnum
  angle :: jsnum
  phase :: jsnum
  speed :: jsnum

record ChemicalOrbitals =
  ctx :: "CanvasRenderingContext2D option"
  time :: nat
  centerX :: real
  centerY :: real
  maxRadius :: real
  pixelRatio :: real
  qualityScale :: real
  currentEnergyLevel :: nat
  energyLevelTimer :: nat
  energyLevelDuration :: nat
  electrons :: "Electron list"
  rand_source :: random_source

definition TWO_PI :: real where
  "TWO_PI = pi * 2"

definition INV_255 :: jsnum where
  "INV_255 = Finite (1 / 255)"

definition MAX_ENERGY_LEVEL :: nat where
  "MAX_ENERGY_LEVEL = 6"

fun new_electrons :: "nat \<Rightarrow> random_source \<Rightarrow> Electron list" where
  "new_electrons 0 rs = []"
| "new_electrons (Suc k) rs =
     \<lparr>x = Finite 0, y = Finite 0, z = Finite 0,
      angle = Finite (rs 0 * TWO_PI),
      phase = Finite (rs 1 * TWO_PI),
      speed = Finite (0.01 + rs 2 * 0.02)\<rparr> # new_electrons k (skip 3 rs)"

definition ChemicalOrbitals_initializeElectrons :: "ChemicalOrbitals \<Rightarrow> ChemicalOrbitals" where
  "ChemicalOrbitals_initializeElectrons st =
     (let electronCount = nat \<lfloor>50 * qualityScale st\<rfloor>
      in st\<lparr>electrons := new_electrons electronCount (rand_source st),
            rand_source := skip (3 * electronCount) (rand_source st)\<rparr>)"

text \<open>
  The constructor. \<open>window_devicePixelRatio\<close> is what \<open>window.devicePixelRatio\<close> reads;
  the source replaces a falsy value by \<open>1\<close>. No statement of the constructor raises:
  the non-null assertion on \<open>getContext('2d')\<close> is erased at run time.
\<close>

definition ChemicalOrbitals_constructor ::
  "HTMLCanvasElement \<Rightarrow> real \<Rightarrow> random_source \<Rightarrow> js_error + ChemicalOrbitals" where
  "ChemicalOrbitals_constructor canvas window_devicePixelRatio rs =
     (let devicePixelRatio = (if window_devicePixelRatio = 0 then 1 else window_devicePixelRatio);
          screenArea = real (width canvas) * real (height canvas);
          threshold = 2073600;
          qs = (if screenArea > threshold then min 0.7 (threshold / screenArea) else 1);
          minDimension = min (real (width canvas)) (real (height canvas))
      in Inr (ChemicalOrbitals_initializeElectrons
           \<lparr>ctx = getContext_2d canvas,
            time = 0,
            centerX = real (width canvas) * 0.5,
            centerY = real (height canvas) * 0.5,
            maxRadius = minDimension * 0.4,
            pixelRatio = (if devicePixelRatio < 2 then devicePixelRatio else 2) * qs,
            qualityScale = qs,
            currentEnergyLevel = 1,
            energyLevelTimer = 0,
            energyLevelDuration = 300,
            electrons = [],
            rand_source = rs\<rparr>))"

definition ChemicalOrbitals_getFrequencyBandIntensity ::
  "8 word list \<Rightarrow> int \<Rightarrow> real \<Rightarrow> real \<Rightarrow> jsnum" where
  "ChemicalOrbitals_getFrequencyBandIntensity dataArray bufferLength startRatio endRatio =
     (let startIndex = to_int32 (real_of_int bufferLength * startRatio);
          endIndex = to_int32 (real_of_int bufferLength * endRatio);
          count = endIndex - startIndex
      in if count \<le> 0 then Finite 0
         else js_mul (js_div (Finite (real (sum_loop dataArray startIndex endIndex 0)))
                             (Finite (real_of_int count)))
                     INV_255)"

text \<open>The four metrics that \<open>render\<close> computes from the buffer.\<close>

definition ChemicalOrbitals_audioIntensity :: "8 word list \<Rightarrow> int \<Rightarrow> jsnum" where
  "ChemicalOrbitals_audioIntensity dataArray bufferLength =
     js_mul (js_div (Finite (real (sum_loop dataArray 0 bufferLength 0)))
                    (Finite (real_of_int bufferLength)))
            INV_255"

definition ChemicalOrbitals_bassIntensity :: "8 word list \<Rightarrow> int \<Rightarrow> jsnum" where
  "ChemicalOrbitals_bassIntensity dataArray bufferLength =
     ChemicalOrbitals_getFrequencyBandIntensity dataArray bufferLength 0 0.15"

definition ChemicalOrbitals_midIntensity :: "8 word list \<Rightarrow> int \<Rightarrow> jsnum" where
  "ChemicalOrbitals_midIntensity dataArray bufferLength =
     ChemicalOrbitals_getFrequencyBandIntensity dataArray bufferLength 0.3 0.6"

definition ChemicalOrbitals_trebleIntensity :: "8 word list \<Rightarrow> int \<Rightarrow> jsnum" where
  "ChemicalOrbitals_trebleIntensity dataArray bufferLength =
     ChemicalOrbitals_getFrequencyBandIntensity dataArray bufferLength 0.7 1.0"

text \<open>
  The energy-level cycle of \<open>render\<close>: the counters advance, then the timer is compared
  with the nominal duration, and then, separately, with the duration divided by the
  transition speed \<open>1 + audioIntensity * 2\<close>. Each comparison that holds resets the
  timer and moves to the next level.
\<close>

definition begin_tick :: "ChemicalOrbitals \<Rightarrow> ChemicalOrbitals" where
  "begin_tick st = st\<lparr>time := time st + 1, energyLevelTimer := energyLevelTimer st + 1\<rparr>"

definition next_level :: "ChemicalOrbitals \<Rightarrow> ChemicalOrbitals" where
  "next_level st =
     st\<lparr>energyLevelTimer := 0,
        currentEnergyLevel := currentEnergyLevel st mod MAX_ENERGY_LEVEL + 1\<rparr>"

definition nominal_fires :: "ChemicalOrbitals \<Rightarrow> bool" where
  "nominal_fires st = (energyLevelTimer st \<ge> energyLevelDuration st)"

definition adjusted_duration :: "ChemicalOrbitals \<Rightarrow> jsnum \<Rightarrow> jsnum" where
  "adjusted_duration st audioIntensity =
     (let transitionSpeed = js_add (Finite 1) (js_mul audioIntensity (Finite 2))
      in js_div (Finite (real (energyLevelDuration st))) transitionSpeed)"

definition adjusted_fires :: "ChemicalOrbitals \<Rightarrow> jsnum \<Rightarrow> bool" where
  "adjusted_fires st audioIntensity =
     js_ge (Finite (real (energyLevelTimer st))) (adjusted_duration st audioIntensity)"

definition nominal_check :: "ChemicalOrbitals \<Rightarrow> ChemicalOrbitals" where
  "nominal_check st = (if nominal_fires st then next_level st else st)"

definition adjusted_check :: "jsnum \<Rightarrow> ChemicalOrbitals \<Rightarrow> ChemicalOrbitals" where
  "adjusted_check audioIntensity st =
     (if adjusted_fires st audioIntensity then next_level st else st)"

definition update_electron :: "nat \<Rightarrow> real \<Rightarrow> jsnum \<Rightarrow> jsnum \<Rightarrow> Electron \<Rightarrow> Electron" where
  "update_electron n orbitalRadius audioIntensity bassIntensity electron =
     (let speed' = js_mul (speed electron)
                     (js_add (js_add (Finite 1) (js_mul audioIntensity (Finite 2))) bassIntensity);
          angle' = js_add (angle electron) (js_div speed' (Finite (real (n * n))));
          phase' = js_add (phase electron) (js_mul speed' (Finite 0.5));
          radius = js_mul (Finite orbitalRadius)
                     (js_add (Finite 0.8) (js_mul (Math_sin phase') (Finite 0.2)))
      in electron\<lparr>angle := angle', phase := phase',
                  x := js_mul (Math_cos angle') radius,
                  y := js_mul (Math_sin angle') radius,
                  z := js_mul (js_mul (Math_sin phase') radius) (Finite 0.3)\<rparr>)"

definition ChemicalOrbitals_updateElectrons ::
  "jsnum \<Rightarrow> jsnum \<Rightarrow> ChemicalOrbitals \<Rightarrow> ChemicalOrbitals" where
  "ChemicalOrbitals_updateElectrons audioIntensity bassIntensity st =
     (let n = currentEnergyLevel st;
          baseRadius = maxRadius st * 0.3;
          orbitalRadius = baseRadius * real n * real n
      in st\<lparr>electrons :=
              map (update_electron n orbitalRadius audioIntensity bassIntensity) (electrons st)\<rparr>)"

text \<open>
  \<open>render\<close>. The first use of the drawing context is the assignment to
  \<open>ctx.fillStyle\<close> after the energy-level cycle: with a \<open>null\<close> context it raises, the
  counters keep what the cycle wrote and the electrons are not updated.
\<close>

definition ChemicalOrbitals_render ::
  "ChemicalOrbitals \<Rightarrow> 8 word list \<Rightarrow> int \<Rightarrow> ChemicalOrbitals outcome" where
  "ChemicalOrbitals_render st dataArray bufferLength =
     (let audioIntensity = ChemicalOrbitals_audioIntensity dataArray bufferLength;
          bassIntensity = ChemicalOrbitals_bassIntensity dataArray bufferLength;
          st' = adjusted_check audioIntensity (nominal_check (begin_tick st))
      in case ctx st' of
           None \<Rightarrow> \<lparr>raised = Some TypeError, renderer = st', dataArray_after = dataArray\<rparr>
         | Some c \<Rightarrow>
             \<lparr>raised = None,
              renderer = ChemicalOrbitals_updateElectrons audioIntensity bassIntensity st',
              dataArray_after = dataArray\<rparr>)"

definition ChemicalOrbitals_resize ::
  "ChemicalOrbitals \<Rightarrow> real \<Rightarrow> real \<Rightarrow> real \<Rightarrow> ChemicalOrbitals" where
  "ChemicalOrbitals_resize st width' height' window_devicePixelRatio =
     (let screenArea = width' * height';
          threshold = 2073600;
          qs = (if screenArea > threshold
                then (if threshold / screenArea < 0.7 then threshold / screenArea else 0.7)
                else 1);
          devicePixelRatio = (if window_devicePixelRatio = 0 then 1 else window_devicePixelRatio);
          minDimension = min width' height'
      in ChemicalOrbitals_initializeElectrons
           (st\<lparr>qualityScale := qs,
               pixelRatio := min devicePixelRatio 2 * qs,
               centerX := width' * 0.5,
               centerY := height' * 0.5,
               maxRadius := minDimension * 0.4,
               electrons := []\<rparr>))"

text \<open>The renderer after \<open>k\<close> calls of \<open>render\<close> with the same buffer.\<close>

fun ChemicalOrbitals_ticks ::
  "nat \<Rightarrow> 8 word list \<Rightarrow> int \<Rightarrow> ChemicalOrbitals \<Rightarrow> ChemicalOrbitals" where
  "ChemicalOrbitals_ticks 0 dataArray bufferLength st = st"
| "ChemicalOrbitals_ticks (Suc k) dataArray bufferLength st =
     renderer (ChemicalOrbitals_render (ChemicalOrbitals_ticks k dataArray bufferLength st)
                 dataArray bufferLength)"

section \<open>KaleidoscopeRenderer\<close>

record Particle =
  x :: jsnum
  y :: jsnum
  vx :: jsnum
  vy :: jsnum
  size_p :: jsnum
  hue :: jsnum
  life :: jsnum

record Kaleidoscope =
  ctx :: "CanvasRenderingContext2D option"
  offscreenCtx :: "CanvasRenderingContext2D option"
  segments :: jsnum
  particles :: "Particle list"
  time :: nat
  hueOffset :: jsnum
  centerX :: real
  centerY :: real
  maxRadius :: real
  pixelRatio :: real
  qualityScale :: real
  rand_source :: random_source

fun new_particles :: "nat \<Rightarrow> jsnum \<Rightarrow> real \<Rightarrow> random_source \<Rightarrow> Particle list" where
  "new_particles 0 segmentAngle maxRadius' rs = []"
| "new_particles (Suc k) segmentAngle maxRadius' rs =
     (let angle = js_mul (Finite (rs 0)) segmentAngle;
          radius = Finite (rs 1 * maxRadius' * 0.5)
      in \<lparr>x = js_mul (Math_cos angle) radius,
          y = js_mul (Math_sin angle) radius,
          vx = Finite ((rs 2 - 0.5) * 2),
          vy = Finite ((rs 3 - 0.5) * 2),
          size_p = Finite (5 + rs 4 * 15),
          hue = Finite (rs 5 * 360),
          life = Finite 1\<rparr> # new_particles k segmentAngle maxRadius' (skip 6 rs))"

text \<open>\<open>initializeParticles\<close> pushes onto the pool it finds; its callers empty the pool first.\<close>

definition Kaleidoscope_initializeParticles :: "Kaleidoscope \<Rightarrow> Kaleidoscope" where
  "Kaleidoscope_initializeParticles st =
     (let baseParticleCount = 100;
          particleCount = nat \<lfloor>baseParticleCount * Kaleidoscope.qualityScale st\<rfloor>;
          segmentAngle = js_div (Finite (pi * 2)) (segments st)
      in st\<lparr>particles :=
              particles st @
              new_particles particleCount segmentAngle (Kaleidoscope.maxRadius st)
                (Kaleidoscope.rand_source st),
            Kaleidoscope.rand_source := skip (6 * particleCount) (Kaleidoscope.rand_source st)\<rparr>)"

text \<open>
  The constructor also asks a canvas of its own for a context; \<open>offscreen_getContext_2d\<close>
  is the answer. As in the other renderer, no statement of the constructor raises.
\<close>

definition Kaleidoscope_constructor ::
  "HTMLCanvasElement \<Rightarrow> real \<Rightarrow> CanvasRenderingContext2D option \<Rightarrow> random_source
     \<Rightarrow> js_error + Kaleidoscope" where
  "Kaleidoscope_constructor canvas window_devicePixelRatio offscreen_getContext_2d rs =
     (let devicePixelRatio = (if window_devicePixelRatio = 0 then 1 else window_devicePixelRatio);
          screenArea = real (width canvas) * real (height canvas);
          qs = (if screenArea > 1920 * 1080 then min 0.7 (1920 * 1080 / screenArea) else 1);
          minDimension = min (real (width canvas)) (real (height canvas))
      in Inr (Kaleidoscope_initializeParticles
           \<lparr>ctx = getContext_2d canvas,
            offscreenCtx = offscreen_getContext_2d,
            segments = Finite 12,
            particles = [],
            time = 0,
            hueOffset = Finite 0,
            centerX = real (width canvas) / 2,
            centerY = real (height canvas) / 2,
            maxRadius = minDimension * 0.8,
            pixelRatio = min devicePixelRatio 2 * qs,
            qualityScale = qs,
            rand_source = rs\<rparr>))"

definition Kaleidoscope_getFrequencyBandIntensity ::
  "8 word list \<Rightarrow> int \<Rightarrow> real \<Rightarrow> real \<Rightarrow> jsnum" where
  "Kaleidoscope_getFrequencyBandIntensity dataArray bufferLength startRatio endRatio =
     (let startIndex = \<lfloor>real_of_int bufferLength * startRatio\<rfloor>;
          endIndex = \<lfloor>real_of_int bufferLength * endRatio\<rfloor>
      in js_div (js_div (Finite (real (sum_loop dataArray startIndex endIndex 0)))
                        (Finite (real_of_int (endIndex - startIndex))))
                (Finite 255))"

text \<open>
  The four metrics of \<open>render\<close>. The average is taken by \<open>reduce\<close> over the whole
  array, whatever \<open>bufferLength\<close> is, and divided by \<open>bufferLength\<close>.
\<close>

definition Kaleidoscope_audioIntensity :: "8 word list \<Rightarrow> int \<Rightarrow> jsnum" where
  "Kaleidoscope_audioIntensity dataArray bufferLength =
     (let avgFrequency = js_div (Finite (real (foldl (\<lambda>s val. s + unat val) 0 dataArray)))
                                (Finite (real_of_int bufferLength))
      in js_div avgFrequency (Finite 255))"

definition Kaleidoscope_bassIntensity :: "8 word list \<Rightarrow> int \<Rightarrow> jsnum" where
  "Kaleidoscope_bassIntensity dataArray bufferLength =
     Kaleidoscope_getFrequencyBandIntensity dataArray bufferLength 0 0.15"

definition Kaleidoscope_midIntensity :: "8 word list \<Rightarrow> int \<Rightarrow> jsnum" where
  "Kaleidoscope_midIntensity dataArray bufferLength =
     Kaleidoscope_getFrequencyBandIntensity dataArray bufferLength 0.3 0.6"

definition Kaleidoscope_trebleIntensity :: "8 word list \<Rightarrow> int \<Rightarrow> jsnum" where
  "Kaleidoscope_trebleIntensity dataArray bufferLength =
     Kaleidoscope_getFrequencyBandIntensity dataArray bufferLength 0.7 1.0"

text \<open>The segment count of \<open>render\<close>: the target, and the guarded assignment.\<close>

definition targetSegments :: "jsnum \<Rightarrow> jsnum" where
  "targetSegments bassIntensity = Math_floor (js_add (Finite 12) (js_mul bassIntensity (Finite 20)))"

definition retarget_segments :: "jsnum \<Rightarrow> Kaleidoscope \<Rightarrow> Kaleidoscope" where
  "retarget_segments bassIntensity st =
     (if js_gt (Math_abs (js_sub (segments st) (targetSegments bassIntensity))) (Finite 0)
         \<and> Kaleidoscope.time st mod 5 = 0
      then st\<lparr>segments := targetSegments bassIntensity\<rparr>
      else st)"

text \<open>
  The body of the loop of \<open>updateParticles\<close>, in three parts: the local \<open>radius\<close> of
  the moved particle; the motion, the decay of \<open>life\<close> and the reflection at the wedge
  boundary; and the respawn, which draws six random numbers.
\<close>

definition speedMultiplier :: "jsnum \<Rightarrow> jsnum \<Rightarrow> jsnum" where
  "speedMultiplier audioIntensity bassIntensity =
     js_add (js_add (Finite 1) (js_mul audioIntensity (Finite 1.5))) (js_mul bassIntensity (Finite 0.8))"

definition particle_radius :: "jsnum \<Rightarrow> jsnum \<Rightarrow> Particle \<Rightarrow> jsnum" where
  "particle_radius audioIntensity bassIntensity particle =
     (let x1 = js_add (Particle.x particle)
                 (js_mul (vx particle) (speedMultiplier audioIntensity bassIntensity));
          y1 = js_add (Particle.y particle)
                 (js_mul (vy particle) (speedMultiplier audioIntensity bassIntensity))
      in Math_sqrt (js_add (js_mul x1 x1) (js_mul y1 y1)))"

definition particle_motion :: "jsnum \<Rightarrow> jsnum \<Rightarrow> jsnum \<Rightarrow> Particle \<Rightarrow> Particle" where
  "particle_motion segmentAngle audioIntensity bassIntensity particle =
     (let x1 = js_add (Particle.x particle)
                 (js_mul (vx particle) (speedMultiplier audioIntensity bassIntensity));
          y1 = js_add (Particle.y particle)
                 (js_mul (vy particle) (speedMultiplier audioIntensity bassIntensity));
          angle = Math_atan2 y1 x1;
          radius = particle_radius audioIntensity bassIntensity particle;
          rotationSpeed =
            js_mul (Finite 0.01)
              (js_add (js_add (Finite 1) (js_mul audioIntensity (Finite 2)))
                      (js_mul bassIntensity (Finite 1.5)));
          newAngle = js_add angle rotationSpeed;
          x2 = js_mul (Math_cos newAngle) radius;
          y2 = js_mul (Math_sin newAngle) radius;
          life' = js_sub (life particle) (Finite 0.005);
          a0 = Math_atan2 y2 x2;
          particleAngle = (if js_lt a0 (Finite 0) then js_add a0 (Finite (pi * 2)) else a0)
      in if js_gt particleAngle segmentAngle
         then (let reflected = js_sub segmentAngle (js_sub particleAngle segmentAngle)
               in particle\<lparr>Particle.x := js_mul (Math_cos reflected) radius,
                           Particle.y := js_mul (Math_sin reflected) radius,
                           vx := js_mul (vx particle) (Finite (- 0.8)),
                           vy := js_mul (vy particle) (Finite (- 0.8)),
                           life := life'\<rparr>)
         else particle\<lparr>Particle.x := x2, Particle.y := y2, life := life'\<rparr>)"

definition respawn_due :: "real \<Rightarrow> jsnum \<Rightarrow> jsnum \<Rightarrow> bool" where
  "respawn_due maxRadius' life' radius =
     (js_le life' (Finite 0) \<or> js_gt radius (Finite (maxRadius' * 0.6)))"

definition respawn :: "jsnum \<Rightarrow> jsnum \<Rightarrow> random_source \<Rightarrow> Particle \<Rightarrow> Particle" where
  "respawn segmentAngle bassIntensity rs particle =
     (let newAngle = js_mul (Finite (rs 0)) segmentAngle;
          newRadius = Finite (rs 1 * 50)
      in particle\<lparr>Particle.x := js_mul (Math_cos newAngle) newRadius,
                  Particle.y := js_mul (Math_sin newAngle) newRadius,
                  vx := Finite ((rs 2 - 0.5) * 2),
                  vy := Finite ((rs 3 - 0.5) * 2),
                  life := Finite 1,
                  hue := Finite (rs 4 * 360),
                  size_p := js_add (Finite (5 + rs 5 * 15)) (js_mul bassIntensity (Finite 10))\<rparr>)"

definition update_particle ::
  "jsnum \<Rightarrow> real \<Rightarrow> jsnum \<Rightarrow> jsnum \<Rightarrow> random_source \<Rightarrow> Particle \<Rightarrow> Particle \<times> random_source" where
  "update_particle segmentAngle maxRadius' audioIntensity bassIntensity rs particle =
     (let moved = particle_motion segmentAngle audioIntensity bassIntensity particle
      in if respawn_due maxRadius' (life moved) (particle_radius audioIntensity bassIntensity particle)
         then (respawn segmentAngle bassIntensity rs moved, skip 6 rs)
         else (moved, rs))"

fun update_each ::
  "jsnum \<Rightarrow> real \<Rightarrow> jsnum \<Rightarrow> jsnum \<Rightarrow> random_source \<Rightarrow> Particle list
     \<Rightarrow> Particle list \<times> random_source" where
  "update_each segmentAngle maxRadius' audioIntensity bassIntensity rs [] = ([], rs)"
| "update_each segmentAngle maxRadius' audioIntensity bassIntensity rs (particle # rest) =
     (let (particle', rs') =
            update_particle segmentAngle maxRadius' audioIntensity bassIntensity rs particle;
          (rest', rs'') = update_each segmentAngle maxRadius' audioIntensity bassIntensity rs' rest
      in (particle' # rest', rs''))"

definition Kaleidoscope_updateParticles :: "jsnum \<Rightarrow> jsnum \<Rightarrow> Kaleidoscope \<Rightarrow> Kaleidoscope" where
  "Kaleidoscope_updateParticles audioIntensity bassIntensity st =
     (let segmentAngle = js_div (Finite (pi * 2)) (segments st);
          (particles', rs') =
            update_each segmentAngle (Kaleidoscope.maxRadius st) audioIntensity bassIntensity
              (Kaleidoscope.rand_source st) (particles st)
      in st\<lparr>particles := particles', Kaleidoscope.rand_source := rs'\<rparr>)"

text \<open>
  \<open>render\<close>. The tick counter and the hue offset are written first. The destination
  context is first used by the fade (\<open>ctx.fillStyle\<close>), before the segment count is
  retargeted; the offscreen context is first used by \<open>clearRect\<close>, after it. Either
  raises on \<open>null\<close>, and what was written before stays written.
\<close>

definition Kaleidoscope_render ::
  "Kaleidoscope \<Rightarrow> 8 word list \<Rightarrow> int \<Rightarrow> Kaleidoscope outcome" where
  "Kaleidoscope_render st dataArray bufferLength =
     (let audioIntensity = Kaleidoscope_audioIntensity dataArray bufferLength;
          bassIntensity = Kaleidoscope_bassIntensity dataArray bufferLength;
          st1 = st\<lparr>Kaleidoscope.time := Kaleidoscope.time st + 1\<rparr>;
          st2 = st1\<lparr>hueOffset :=
                  js_rem (js_add (js_add (hueOffset st1) (Finite 0.5))
                                 (js_mul bassIntensity (Finite 2)))
                         (Finite 360)\<rparr>
      in case Kaleidoscope.ctx st2 of
           None \<Rightarrow> \<lparr>raised = Some TypeError, renderer = st2, dataArray_after = dataArray\<rparr>
         | Some c \<Rightarrow>
             (let st3 = retarget_segments bassIntensity st2
              in case offscreenCtx st3 of
                   None \<Rightarrow> \<lparr>raised = Some TypeError, renderer = st3, dataArray_after = dataArray\<rparr>
                 | Some oc \<Rightarrow>
                     \<lparr>raised = None,
                      renderer = Kaleidoscope_updateParticles audioIntensity bassIntensity st3,
                      dataArray_after = dataArray\<rparr>))"

definition Kaleidoscope_resize :: "Kaleidoscope \<Rightarrow> real \<Rightarrow> real \<Rightarrow> real \<Rightarrow> Kaleidoscope" where
  "Kaleidoscope_resize st width' height' window_devicePixelRatio =
     (let screenArea = width' * height';
          qs = (if screenArea > 1920 * 1080 then min 0.7 (1920 * 1080 / screenArea) else 1);
          devicePixelRatio = (if window_devicePixelRatio = 0 then 1 else window_devicePixelRatio);
          minDimension = min width' height'
      in Kaleidoscope_initializeParticles
           (st\<lparr>Kaleidoscope.qualityScale := qs,
               Kaleidoscope.pixelRatio := min devicePixelRatio 2 * qs,
               Kaleidoscope.centerX := width' / 2,
               Kaleidoscope.centerY := height' / 2,
               Kaleidoscope.maxRadius := minDimension * 0.8,
               particles := []\<rparr>))"

text \<open>
  The renderer after \<open>k\<close> calls of \<open>render\<close>, the \<open>j\<close>-th call (from \<open>0\<close>) with the
  buffer and length \<open>input j\<close>.
\<close>

fun Kaleidoscope_ticks ::
  "nat \<Rightarrow> (nat \<Rightarrow> 8 word list \<times> int) \<Rightarrow> Kaleidoscope \<Rightarrow> Kaleidoscope" where
  "Kaleidoscope_ticks 0 input st = st"
| "Kaleidoscope_ticks (Suc k) input st =
     renderer (Kaleidoscope_render (Kaleidoscope_ticks k input st)
                 (fst (input k)) (snd (input k)))"

section \<open>The quality scale as the specification words it\<close>

text \<open>
  The specification's formula for the quality scale of a surface of pixel area \<open>A\<close>, with
  the threshold \<open>1920 \<times> 1080 = 2073600\<close>. The source writes it four times, in three
  forms, in the constructors and in \<open>resize\<close>.
\<close>

definition quality_for_area :: "real \<Rightarrow> real" where
  "quality_for_area A = (if A \<le> 2073600 then 1 else min 0.7 (2073600 / A))"

section \<open>The period of the energy-level cycle\<close>

text \<open>
  The number of ticks between two advances of the energy level under a constant buffer:
  the audio-adjusted duration of \<open>render\<close>, rounded up to whole ticks, and the nominal
  \<open>300\<close> when that duration is not a finite number. It is a quantity of the proofs, not of
  the source.
\<close>

definition advance_period :: "8 word list \<Rightarrow> int \<Rightarrow> nat" where
  "advance_period dataArray bufferLength =
     (case js_div (Finite 300)
             (js_add (Finite 1) (js_mul (ChemicalOrbitals_audioIntensity dataArray bufferLength) (Finite 2)))
      of Finite t \<Rightarrow> nat \<lceil>t\<rceil> | _ \<Rightarrow> 300)"

section \<open>Concrete inputs\<close>

definition constant_source :: "real \<Rightarrow> random_source" where
  "constant_source r = (\<lambda>i. r)"

definition surface_1000 :: HTMLCanvasElement where
  "surface_1000 = \<lparr>width = 1000, height = 1000, getContext_2d = Some CanvasRenderingContext2D\<rparr>"

definition surface_without_context :: HTMLCanvasElement where
  "surface_without_context = \<lparr>width = 800, height = 600, getContext_2d = None\<rparr>"

definition orbitals_1000 :: ChemicalOrbitals where
  "orbitals_1000 = projr (ChemicalOrbitals_constructor surface_1000 1 (constant_source 0))"

section \<open>Construction and resize, field by field\<close>

lemma chem_init_fields [simp]:
  "ChemicalOrbitals.ctx (ChemicalOrbitals_initializeElectrons st) = ChemicalOrbitals.ctx st"
  "ChemicalOrbitals.time (ChemicalOrbitals_initializeElectrons st) = ChemicalOrbitals.time st"
  "ChemicalOrbitals.centerX (ChemicalOrbitals_initializeElectrons st) = ChemicalOrbitals.centerX st"
  "ChemicalOrbitals.centerY (ChemicalOrbitals_initializeElectrons st) = ChemicalOrbitals.centerY st"
  "ChemicalOrbitals.maxRadius (ChemicalOrbitals_initializeElectrons st) = ChemicalOrbitals.maxRadius st"
  "ChemicalOrbitals.pixelRatio (ChemicalOrbitals_initializeElectrons st) = ChemicalOrbitals.pixelRatio st"
  "ChemicalOrbitals.qualityScale (ChemicalOrbitals_initializeElectrons st) = ChemicalOrbitals.qualityScale st"
  "currentEnergyLevel (ChemicalOrbitals_initializeElectrons st) = currentEnergyLevel st"
  "energyLevelTimer (ChemicalOrbitals_initializeElectrons st) = energyLevelTimer st"
  "energyLevelDuration (ChemicalOrbitals_initializeElectrons st) = energyLevelDuration st"
  "electrons (ChemicalOrbitals_initializeElectrons st) =
     new_electrons (nat \<lfloor>50 * ChemicalOrbitals.qualityScale st\<rfloor>) (ChemicalOrbitals.rand_source st)"
  by (simp_all add: ChemicalOrbitals_initializeElectrons_def Let_def)

lemma kal_init_fields [simp]:
  "Kaleidoscope.ctx (Kaleidoscope_initializeParticles st) = Kaleidoscope.ctx st"
  "offscreenCtx (Kaleidoscope_initializeParticles st) = offscreenCtx st"
  "segments (Kaleidoscope_initializeParticles st) = segments st"
  "Kaleidoscope.time (Kaleidoscope_initializeParticles st) = Kaleidoscope.time st"
  "hueOffset (Kaleidoscope_initializeParticles st) = hueOffset st"
  "Kaleidoscope.centerX (Kaleidoscope_initializeParticles st) = Kaleidoscope.centerX st"
  "Kaleidoscope.centerY (Kaleidoscope_initializeParticles st) = Kaleidoscope.centerY st"
  "Kaleidoscope.maxRadius (Kaleidoscope_initializeParticles st) = Kaleidoscope.maxRadius st"
  "Kaleidoscope.pixelRatio (Kaleidoscope_initializeParticles st) = Kaleidoscope.pixelRatio st"
  "Kaleidoscope.qualityScale (Kaleidoscope_initializeParticles st) = Kaleidoscope.qualityScale st"
  "particles (Kaleidoscope_initializeParticles st) =
     particles st @ new_particles (nat \<lfloor>100 * Kaleidoscope.qualityScale st\<rfloor>)
       (js_div (Finite (pi * 2)) (segments st)) (Kaleidoscope.maxRadius st) (Kaleidoscope.rand_source st)"
  by (simp_all add: Kaleidoscope_initializeParticles_def Let_def)

lemma quality_source_forms:
  "(if A > 2073600 then min 0.7 (2073600 / A) else 1) = quality_for_area A"
  "(if A > 1920 * 1080 then min 0.7 (1920 * 1080 / A) else 1) = quality_for_area A"
  "(if A > 2073600 then (if 2073600 / A < 0.7 then 2073600 / A else 0.7) else 1) = quality_for_area A"
  by (simp_all add: quality_for_area_def min_def)


lemma min_source_form: "(if (d::real) < 2 then d else 2) = min d 2"
  by (simp add: min_def)

lemma quality_for_area_pos: "0 < quality_for_area A"
  by (simp add: quality_for_area_def min_def)

lemma chem_constructor_unfold:
  "ChemicalOrbitals_constructor canvas w rs =
     Inr (ChemicalOrbitals_initializeElectrons
           \<lparr>ChemicalOrbitals.ctx = getContext_2d canvas,
            time = 0,
            centerX = real (width canvas) * 0.5,
            centerY = real (height canvas) * 0.5,
            maxRadius = min (real (width canvas)) (real (height canvas)) * 0.4,
            pixelRatio = min (if w = 0 then 1 else w) 2
                           * quality_for_area (real (width canvas) * real (height canvas)),
            qualityScale = quality_for_area (real (width canvas) * real (height canvas)),
            currentEnergyLevel = 1,
            energyLevelTimer = 0,
            energyLevelDuration = 300,
            electrons = [],
            rand_source = rs\<rparr>)"
  unfolding ChemicalOrbitals_constructor_def Let_def quality_source_forms min_source_form by simp

lemma kal_constructor_unfold:
  "Kaleidoscope_constructor canvas w oc rs =
     Inr (Kaleidoscope_initializeParticles
           \<lparr>Kaleidoscope.ctx = getContext_2d canvas,
            offscreenCtx = oc,
            segments = Finite 12,
            particles = [],
            time = 0,
            hueOffset = Finite 0,
            centerX = real (width canvas) / 2,
            centerY = real (height canvas) / 2,
            maxRadius = min (real (width canvas)) (real (height canvas)) * 0.8,
            pixelRatio = min (if w = 0 then 1 else w) 2
                           * quality_for_area (real (width canvas) * real (height canvas)),
            qualityScale = quality_for_area (real (width canvas) * real (height canvas)),
            rand_source = rs\<rparr>)"
  unfolding Kaleidoscope_constructor_def Let_def quality_source_forms by simp

lemma chem_resize_unfold:
  "ChemicalOrbitals_resize st w h d =
     ChemicalOrbitals_initializeElectrons
       (st\<lparr>ChemicalOrbitals.qualityScale := quality_for_area (w * h),
           ChemicalOrbitals.pixelRatio := min (if d = 0 then 1 else d) 2 * quality_for_area (w * h),
           ChemicalOrbitals.centerX := w * 0.5,
           ChemicalOrbitals.centerY := h * 0.5,
           ChemicalOrbitals.maxRadius := min w h * 0.4,
           electrons := []\<rparr>)"
  unfolding ChemicalOrbitals_resize_def Let_def quality_source_forms by simp

lemma kal_resize_unfold:
  "Kaleidoscope_resize st w h d =
     Kaleidoscope_initializeParticles
       (st\<lparr>Kaleidoscope.qualityScale := quality_for_area (w * h),
           Kaleidoscope.pixelRatio := min (if d = 0 then 1 else d) 2 * quality_for_area (w * h),
           Kaleidoscope.centerX := w / 2,
           Kaleidoscope.centerY := h / 2,
           Kaleidoscope.maxRadius := min w h * 0.8,
           particles := []\<rparr>)"
  unfolding Kaleidoscope_resize_def Let_def quality_source_forms by simp

lemma length_new_electrons: "length (new_electrons k rs) = k"
  by (induction k arbitrary: rs) simp_all

lemma length_new_particles: "length (new_particles k a m rs) = k"
  by (induction k arbitrary: rs) (simp_all add: Let_def)

lemma quality_for_area_nonneg: "0 \<le> quality_for_area A"
  using quality_for_area_pos [of A] by simp

lemma js_add_NaN: "js_add v NaN = NaN"
  by (cases v) simp_all

lemma kal_render_hueOffset:
  "hueOffset (renderer (Kaleidoscope_render st d n)) =
     js_rem (js_add (js_add (hueOffset st) (Finite 0.5))
                    (js_mul (Kaleidoscope_bassIntensity d n) (Finite 2)))
            (Finite 360)"
  by (simp add: Kaleidoscope_render_def Let_def retarget_segments_def
      Kaleidoscope_updateParticles_def case_prod_beta split: option.splits)

section \<open>Quality scaling\<close>

text \<open>
  Claim C4. For every surface, both constructors succeed and compute the quality scale
  \<open>1\<close> when the pixel area is at most \<open>2073600\<close> and \<open>min(0.7, 2073600 / area)\<close> above
  it, and the effective pixel ratio \<open>min(devicePixelRatio, 2) \<times> qualityScale\<close>, where
  \<open>devicePixelRatio\<close> is the window's value with \<open>1\<close> in place of a falsy one. A
  \<open>1920 \<times> 1080\<close> surface gets exactly \<open>1\<close>, a \<open>3840 \<times> 2160\<close> surface exactly \<open>0.25\<close>.
  \<open>resize\<close> computes both by the same formulas from the new width and height.
\<close>

theorem quality_scale_of_surface:
  "(case ChemicalOrbitals_constructor canvas w rs of
      Inl e \<Rightarrow> False
    | Inr c \<Rightarrow>
        ChemicalOrbitals.qualityScale c =
          (if real (width canvas) * real (height canvas) \<le> 2073600 then 1
           else min 0.7 (2073600 / (real (width canvas) * real (height canvas))))
        \<and> ChemicalOrbitals.pixelRatio c =
            min (if w = 0 then 1 else w) 2 * ChemicalOrbitals.qualityScale c)
 \<and> (case Kaleidoscope_constructor canvas w oc rs of
      Inl e \<Rightarrow> False
    | Inr k \<Rightarrow>
        Kaleidoscope.qualityScale k =
          (if real (width canvas) * real (height canvas) \<le> 2073600 then 1
           else min 0.7 (2073600 / (real (width canvas) * real (height canvas))))
        \<and> Kaleidoscope.pixelRatio k =
            min (if w = 0 then 1 else w) 2 * Kaleidoscope.qualityScale k)
 \<and> (case ChemicalOrbitals_constructor \<lparr>width = 1920, height = 1080, getContext_2d = cx\<rparr> w rs of
      Inl e \<Rightarrow> False | Inr c \<Rightarrow> ChemicalOrbitals.qualityScale c = 1)
 \<and> (case ChemicalOrbitals_constructor \<lparr>width = 3840, height = 2160, getContext_2d = cx\<rparr> w rs of
      Inl e \<Rightarrow> False | Inr c \<Rightarrow> ChemicalOrbitals.qualityScale c = 0.25)
 \<and> (case Kaleidoscope_constructor \<lparr>width = 1920, height = 1080, getContext_2d = cx\<rparr> w oc rs of
      Inl e \<Rightarrow> False | Inr k \<Rightarrow> Kaleidoscope.qualityScale k = 1)
 \<and> (case Kaleidoscope_constructor \<lparr>width = 3840, height = 2160, getContext_2d = cx\<rparr> w oc rs of
      Inl e \<Rightarrow> False | Inr k \<Rightarrow> Kaleidoscope.qualityScale k = 0.25)
 \<and> ChemicalOrbitals.qualityScale (ChemicalOrbitals_resize st width' height' w) =
      (if width' * height' \<le> 2073600 then 1 else min 0.7 (2073600 / (width' * height')))
 \<and> ChemicalOrbitals.pixelRatio (ChemicalOrbitals_resize st width' height' w) =
      min (if w = 0 then 1 else w) 2
        * ChemicalOrbitals.qualityScale (ChemicalOrbitals_resize st width' height' w)
 \<and> Kaleidoscope.qualityScale (Kaleidoscope_resize st' width' height' w) =
      (if width' * height' \<le> 2073600 then 1 else min 0.7 (2073600 / (width' * height')))
 \<and> Kaleidoscope.pixelRatio (Kaleidoscope_resize st' width' height' w) =
      min (if w = 0 then 1 else w) 2
        * Kaleidoscope.qualityScale (Kaleidoscope_resize st' width' height' w)"
  by (simp add: chem_constructor_unfold kal_constructor_unfold chem_resize_unfold
      kal_resize_unfold quality_for_area_def)

section \<open>Failure to acquire the drawing context\<close>

text \<open>
  Claim C5 at a surface that gives no 2D context. Neither constructor raises: each
  stores the \<open>null\<close> that \<open>getContext('2d')\<close> answered, behind the non-null assertion
  of the source, and returns the renderer.
\<close>

theorem construction_without_context_succeeds:
  "\<not> isl (ChemicalOrbitals_constructor surface_without_context 1 (constant_source 0))
   \<and> \<not> isl (Kaleidoscope_constructor surface_without_context 1 None (constant_source 0))"
  by (simp add: chem_constructor_unfold kal_constructor_unfold)

section \<open>Resize\<close>

text \<open>
  Claim C7. For every width and height, a second \<open>resize\<close> to the same dimensions
  leaves the quality scale, the effective pixel ratio, the center, the maximal radius
  and the pool size as the first left them, and after a \<open>resize\<close> the pool holds
  \<open>floor(50 \<times> qualityScale)\<close> electrons, respectively \<open>floor(100 \<times> qualityScale)\<close>
  particles, of the new quality scale. The \<open>render\<close> that follows a \<open>resize\<close> is another
  matter: with a zero-length buffer the orbitals renderer computes the overall intensity
  \<open>NaN\<close> and the kaleidoscope writes \<open>NaN\<close> into its hue offset, and these are the
  numbers the draw routines then format into the colours of their gradient stops.
\<close>

theorem resize_idempotent:
  "ChemicalOrbitals.qualityScale (ChemicalOrbitals_resize (ChemicalOrbitals_resize c w h d) w h d)
     = ChemicalOrbitals.qualityScale (ChemicalOrbitals_resize c w h d)
   \<and> ChemicalOrbitals.pixelRatio (ChemicalOrbitals_resize (ChemicalOrbitals_resize c w h d) w h d)
     = ChemicalOrbitals.pixelRatio (ChemicalOrbitals_resize c w h d)
   \<and> ChemicalOrbitals.centerX (ChemicalOrbitals_resize (ChemicalOrbitals_resize c w h d) w h d)
     = ChemicalOrbitals.centerX (ChemicalOrbitals_resize c w h d)
   \<and> ChemicalOrbitals.centerY (ChemicalOrbitals_resize (ChemicalOrbitals_resize c w h d) w h d)
     = ChemicalOrbitals.centerY (ChemicalOrbitals_resize c w h d)
   \<and> ChemicalOrbitals.maxRadius (ChemicalOrbitals_resize (ChemicalOrbitals_resize c w h d) w h d)
     = ChemicalOrbitals.maxRadius (ChemicalOrbitals_resize c w h d)
   \<and> length (electrons (ChemicalOrbitals_resize (ChemicalOrbitals_resize c w h d) w h d))
     = length (electrons (ChemicalOrbitals_resize c w h d))
   \<and> int (length (electrons (ChemicalOrbitals_resize c w h d)))
     = \<lfloor>50 * ChemicalOrbitals.qualityScale (ChemicalOrbitals_resize c w h d)\<rfloor>
   \<and> Kaleidoscope.qualityScale (Kaleidoscope_resize (Kaleidoscope_resize k w h d) w h d)
     = Kaleidoscope.qualityScale (Kaleidoscope_resize k w h d)
   \<and> Kaleidoscope.pixelRatio (Kaleidoscope_resize (Kaleidoscope_resize k w h d) w h d)
     = Kaleidoscope.pixelRatio (Kaleidoscope_resize k w h d)
   \<and> Kaleidoscope.centerX (Kaleidoscope_resize (Kaleidoscope_resize k w h d) w h d)
     = Kaleidoscope.centerX (Kaleidoscope_resize k w h d)
   \<and> Kaleidoscope.centerY (Kaleidoscope_resize (Kaleidoscope_resize k w h d) w h d)
     = Kaleidoscope.centerY (Kaleidoscope_resize k w h d)
   \<and> Kaleidoscope.maxRadius (Kaleidoscope_resize (Kaleidoscope_resize k w h d) w h d)
     = Kaleidoscope.maxRadius (Kaleidoscope_resize k w h d)
   \<and> length (particles (Kaleidoscope_resize (Kaleidoscope_resize k w h d) w h d))
     = length (particles (Kaleidoscope_resize k w h d))
   \<and> int (length (particles (Kaleidoscope_resize k w h d)))
     = \<lfloor>100 * Kaleidoscope.qualityScale (Kaleidoscope_resize k w h d)\<rfloor>
   \<and> ChemicalOrbitals_audioIntensity [] 0 = NaN
   \<and> hueOffset (renderer (Kaleidoscope_render (Kaleidoscope_resize k w h d) [] 0)) = NaN"
proof -
  have bass: "Kaleidoscope_bassIntensity [] 0 = NaN"
    by (simp add: Kaleidoscope_bassIntensity_def Kaleidoscope_getFrequencyBandIntensity_def
        sum_loop.simps signed_infinity_def)
  have audio: "ChemicalOrbitals_audioIntensity [] 0 = NaN"
    by (simp add: ChemicalOrbitals_audioIntensity_def sum_loop.simps signed_infinity_def)
  have hue: "hueOffset (renderer (Kaleidoscope_render (Kaleidoscope_resize k w h d) [] 0)) = NaN"
    unfolding kal_render_hueOffset bass by (simp add: js_add_NaN)
  show ?thesis
    unfolding audio hue
    by (simp add: chem_resize_unfold kal_resize_unfold length_new_electrons length_new_particles
        quality_for_area_nonneg)
qed

text \<open>
  Claim C9. \<open>resize\<close> of the orbitals renderer leaves the energy level, its timer, the
  nominal duration and the tick counter as they were, while the quality scale, the
  effective pixel ratio, the center, the maximal radius and the electron pool are
  computed anew from the width and height.
\<close>

theorem resize_keeps_energy_state:
  "currentEnergyLevel (ChemicalOrbitals_resize st w h d) = currentEnergyLevel st
  \<and> energyLevelTimer (ChemicalOrbitals_resize st w h d) = energyLevelTimer st
  \<and> energyLevelDuration (ChemicalOrbitals_resize st w h d) = energyLevelDuration st
  \<and> ChemicalOrbitals.time (ChemicalOrbitals_resize st w h d) = ChemicalOrbitals.time st
  \<and> ChemicalOrbitals.qualityScale (ChemicalOrbitals_resize st w h d) =
      (if w * h > 2073600 then min 0.7 (2073600 / (w * h)) else 1)
  \<and> ChemicalOrbitals.pixelRatio (ChemicalOrbitals_resize st w h d) =
      min (if d = 0 then 1 else d) 2 * ChemicalOrbitals.qualityScale (ChemicalOrbitals_resize st w h d)
  \<and> ChemicalOrbitals.centerX (ChemicalOrbitals_resize st w h d) = w * 0.5
  \<and> ChemicalOrbitals.centerY (ChemicalOrbitals_resize st w h d) = h * 0.5
  \<and> ChemicalOrbitals.maxRadius (ChemicalOrbitals_resize st w h d) = min w h * 0.4
  \<and> electrons (ChemicalOrbitals_resize st w h d) =
      new_electrons (nat \<lfloor>50 * ChemicalOrbitals.qualityScale (ChemicalOrbitals_resize st w h d)\<rfloor>)
        (ChemicalOrbitals.rand_source st)"
  by (simp add: chem_resize_unfold quality_source_forms)

section \<open>The frequency buffer\<close>

text \<open>
  Claim C3 at a zero-length buffer. The band intensity of the kaleidoscope divides by the
  count with no guard and is \<open>NaN\<close>; the overall intensity of both renderers divides by
  the length and is \<open>NaN\<close>; only the band intensity of the orbitals renderer, which has
  the guard, is \<open>0\<close>.
\<close>

theorem zero_length_buffer_intensities:
  "Kaleidoscope_getFrequencyBandIntensity [] 0 0 0.15 = NaN
   \<and> Kaleidoscope_audioIntensity [] 0 = NaN
   \<and> ChemicalOrbitals_audioIntensity [] 0 = NaN
   \<and> ChemicalOrbitals_getFrequencyBandIntensity [] 0 0 0.15 = Finite 0"
  by (simp add: Kaleidoscope_getFrequencyBandIntensity_def Kaleidoscope_audioIntensity_def
      ChemicalOrbitals_audioIntensity_def ChemicalOrbitals_getFrequencyBandIntensity_def
      sum_loop.simps signed_infinity_def)

text \<open>
  Claim C10. \<open>render\<close> of either renderer leaves the frequency buffer as it found it,
  whether or not it raises.
\<close>

theorem render_reads_buffer_only:
  "dataArray_after (ChemicalOrbitals_render st dataArray bufferLength) = dataArray
   \<and> dataArray_after (Kaleidoscope_render st' dataArray bufferLength) = dataArray"
  by (simp add: ChemicalOrbitals_render_def Kaleidoscope_render_def Let_def split: option.splits)

section \<open>The segment count of the kaleidoscope\<close>

lemma retarget_fields:
  "Kaleidoscope.time (retarget_segments b st) = Kaleidoscope.time st"
  "particles (retarget_segments b st) = particles st"
  "Kaleidoscope.maxRadius (retarget_segments b st) = Kaleidoscope.maxRadius st"
  by (simp_all add: retarget_segments_def)

lemma retarget_segments_cases:
  "segments (retarget_segments b st) =
     (if Kaleidoscope.time st mod 5 = 0
         \<and> js_gt (Math_abs (js_sub (segments st) (targetSegments b))) (Finite 0)
      then targetSegments b else segments st)"
  by (simp add: retarget_segments_def)

lemma updateParticles_fields:
  "segments (Kaleidoscope_updateParticles a b st) = segments st"
  "Kaleidoscope.time (Kaleidoscope_updateParticles a b st) = Kaleidoscope.time st"
  "Kaleidoscope.ctx (Kaleidoscope_updateParticles a b st) = Kaleidoscope.ctx st"
  "offscreenCtx (Kaleidoscope_updateParticles a b st) = offscreenCtx st"
  "Kaleidoscope.maxRadius (Kaleidoscope_updateParticles a b st) = Kaleidoscope.maxRadius st"
  by (simp_all add: Kaleidoscope_updateParticles_def Let_def split: prod.splits)

lemma kal_render_time:
  "Kaleidoscope.time (renderer (Kaleidoscope_render st d n)) = Kaleidoscope.time st + 1"
  by (simp add: Kaleidoscope_render_def Let_def retarget_fields updateParticles_fields
      split: option.splits)

lemma kal_render_segments:
  "segments (renderer (Kaleidoscope_render st d n)) =
     (if (Kaleidoscope.time st + 1) mod 5 = 0 \<and> Kaleidoscope.ctx st \<noteq> None
         \<and> js_gt (Math_abs (js_sub (segments st) (targetSegments (Kaleidoscope_bassIntensity d n))))
              (Finite 0)
      then targetSegments (Kaleidoscope_bassIntensity d n) else segments st)"
  by (simp add: Kaleidoscope_render_def Let_def retarget_segments_cases updateParticles_fields
      split: option.splits)

lemma kal_ticks_time:
  "Kaleidoscope.time (Kaleidoscope_ticks k input st) = Kaleidoscope.time st + k"
  by (induction k) (simp_all add: kal_render_time)

lemma kal_change_only_on_fifth:
  "segments (Kaleidoscope_ticks (Suc j) input st) \<noteq> segments (Kaleidoscope_ticks j input st)
     \<Longrightarrow> (Kaleidoscope.time st + j + 1) mod 5 = 0"
  by (simp add: kal_render_segments kal_ticks_time split: if_splits)

lemma length_filter_mono:
  "(\<And>x. x \<in> set xs \<Longrightarrow> P x \<Longrightarrow> Q x) \<Longrightarrow> length (filter P xs) \<le> length (filter Q xs)"
  by (induction xs) auto

lemma upt_five: "[0..<5] = [0, 1, 2, 3, 4::nat]"
  by code_simp

lemma shift_mod_five: "(t + j + 1) mod 5 = (t mod 5 + j + 1) mod (5::nat)"
  using mod_add_left_eq [of t 5 "j + 1"] by (simp add: add.assoc)

lemma one_of_five_small:
  assumes "r < 5"
  shows "length (filter (\<lambda>j. (r + j + 1) mod 5 = 0) [0, 1, 2, 3, 4::nat]) \<le> (1::nat)"
proof -
  from assms consider "r = 0" | "r = 1" | "r = 2" | "r = 3" | "r = 4" by linarith
  then show ?thesis by cases simp_all
qed

lemma one_multiple_of_five: "length (filter (\<lambda>j. (t + j + 1) mod 5 = 0) [0..<5]) \<le> (1::nat)"
  using one_of_five_small [of "t mod 5"] unfolding upt_five shift_mod_five [of t] by simp

text \<open>
  Claim C8. The segment count is \<open>12\<close> after construction. A \<open>render\<close> leaves it as it
  was on every tick whose counter (after the increment) is not a multiple of \<open>5\<close>, and
  otherwise leaves it or sets it to the target \<open>floor(12 + 20 \<times> bass)\<close>; \<open>resize\<close>
  changes neither the count nor the tick counter. So among any five consecutive ticks,
  from any state and with any buffers, at most one changes the count.
\<close>

theorem segments_change_at_most_once_in_five:
  "(case Kaleidoscope_constructor canvas w oc rs of
      Inl e \<Rightarrow> False | Inr k \<Rightarrow> segments k = Finite 12)
   \<and> (if (Kaleidoscope.time st + 1) mod 5 = 0
       then segments (renderer (Kaleidoscope_render st d n)) = segments st
            \<or> segments (renderer (Kaleidoscope_render st d n))
                = Math_floor (js_add (Finite 12) (js_mul (Kaleidoscope_bassIntensity d n) (Finite 20)))
       else segments (renderer (Kaleidoscope_render st d n)) = segments st)
   \<and> Kaleidoscope.time (renderer (Kaleidoscope_render st d n)) = Kaleidoscope.time st + 1
   \<and> segments (Kaleidoscope_resize st w' h' dpr) = segments st
   \<and> Kaleidoscope.time (Kaleidoscope_resize st w' h' dpr) = Kaleidoscope.time st
   \<and> length (filter (\<lambda>j. segments (Kaleidoscope_ticks (Suc j) input st)
                            \<noteq> segments (Kaleidoscope_ticks j input st)) [0..<5]) \<le> 1"
proof -
  have "length (filter (\<lambda>j. segments (Kaleidoscope_ticks (Suc j) input st)
                            \<noteq> segments (Kaleidoscope_ticks j input st)) [0..<5])
        \<le> length (filter (\<lambda>j. (Kaleidoscope.time st + j + 1) mod 5 = 0) [0..<5])"
    by (rule length_filter_mono) (rule kal_change_only_on_fifth)
  also have "\<dots> \<le> 1" by (rule one_multiple_of_five)
  finally have five: "length (filter (\<lambda>j. segments (Kaleidoscope_ticks (Suc j) input st)
                            \<noteq> segments (Kaleidoscope_ticks j input st)) [0..<5]) \<le> 1" .
  have ctor: "(case Kaleidoscope_constructor canvas w oc rs of
      Inl e \<Rightarrow> False | Inr k \<Rightarrow> segments k = Finite 12)"
    by (simp add: kal_constructor_unfold)
  have step: "(if (Kaleidoscope.time st + 1) mod 5 = 0
       then segments (renderer (Kaleidoscope_render st d n)) = segments st
            \<or> segments (renderer (Kaleidoscope_render st d n))
                = Math_floor (js_add (Finite 12) (js_mul (Kaleidoscope_bassIntensity d n) (Finite 20)))
       else segments (renderer (Kaleidoscope_render st d n)) = segments st)"
    by (simp add: kal_render_segments targetSegments_def)
  have rs: "segments (Kaleidoscope_resize st w' h' dpr) = segments st"
    "Kaleidoscope.time (Kaleidoscope_resize st w' h' dpr) = Kaleidoscope.time st"
    by (simp_all add: kal_resize_unfold)
  show ?thesis by (intro conjI ctor step kal_render_time rs five)
qed

section \<open>The energy-level cycle\<close>

lemma sum_loop_done: "e \<le> i \<Longrightarrow> sum_loop d i e s = s"
  by (simp add: sum_loop.simps)

lemma sum_loop_replicate:
  "0 \<le> i \<Longrightarrow> i \<le> int m \<Longrightarrow>
     sum_loop (replicate m c) i (int m) s = s + nat (int m - i) * unat c"
proof (induction "nat (int m - i)" arbitrary: i s)
  case 0
  then show ?case by (simp add: sum_loop.simps)
next
  case (Suc k)
  then have lt: "i < int m" and k: "k = nat (int m - (i + 1))" by linarith+
  have at: "at_or_0 (replicate m c) i = unat c"
    using Suc.prems lt by (simp add: at_or_0_def)
  have "sum_loop (replicate m c) i (int m) s
          = sum_loop (replicate m c) (i + 1) (int m) (s + unat c)"
    using lt by (subst sum_loop.simps) (simp add: at)
  also have "\<dots> = (s + unat c) + nat (int m - (i + 1)) * unat c"
    using Suc.hyps(1) [OF k] Suc.prems lt by simp
  also have "\<dots> = s + nat (int m - i) * unat c"
    using Suc.hyps(2) k by (metis add.assoc mult_Suc)
  finally show ?case .
qed

lemma audioIntensity_cases:
  "ChemicalOrbitals_audioIntensity d n = NaN
   \<or> (\<exists>a. ChemicalOrbitals_audioIntensity d n = Finite a \<and> 0 \<le> a)"
proof (cases "n = 0")
  case True
  then show ?thesis
    by (simp add: ChemicalOrbitals_audioIntensity_def sum_loop_done signed_infinity_def)
next
  case False
  show ?thesis
  proof (cases "n < 0")
    case True
    then show ?thesis
      by (simp add: ChemicalOrbitals_audioIntensity_def sum_loop_done INV_255_def)
  next
    case False
    with \<open>n \<noteq> 0\<close> have "0 < n" by simp
    then show ?thesis
      by (simp add: ChemicalOrbitals_audioIntensity_def INV_255_def)
  qed
qed

lemma adjusted_duration_cases:
  assumes "energyLevelDuration st = 300"
  shows "(adjusted_duration st (ChemicalOrbitals_audioIntensity d n) = NaN \<and> advance_period d n = 300)
   \<or> (\<exists>t. adjusted_duration st (ChemicalOrbitals_audioIntensity d n) = Finite t
           \<and> 0 < t \<and> t \<le> 300 \<and> advance_period d n = nat \<lceil>t\<rceil>)"
  using audioIntensity_cases [of d n]
proof
  assume "ChemicalOrbitals_audioIntensity d n = NaN"
  then show ?thesis by (simp add: adjusted_duration_def advance_period_def assms)
next
  assume "\<exists>a. ChemicalOrbitals_audioIntensity d n = Finite a \<and> 0 \<le> a"
  then obtain a where a: "ChemicalOrbitals_audioIntensity d n = Finite a" "0 \<le> a" by blast
  have pos: "0 < 1 + a * 2" using a(2) by simp
  have le: "300 / (1 + a * 2) \<le> 300" using a(2) pos by (simp add: divide_le_eq)
  have "adjusted_duration st (ChemicalOrbitals_audioIntensity d n) = Finite (300 / (1 + a * 2))"
    using pos by (simp add: adjusted_duration_def a assms)
  moreover have "advance_period d n = nat \<lceil>300 / (1 + a * 2)\<rceil>"
    using pos by (simp add: advance_period_def a)
  ultimately show ?thesis using pos le by simp
qed

lemma advance_period_bounds:
  "1 \<le> advance_period d n \<and> advance_period d n \<le> 300"
proof -
  have "energyLevelDuration (undefined\<lparr>energyLevelDuration := 300\<rparr>) = 300" by simp
  from adjusted_duration_cases [OF this, of d n] show ?thesis
  proof (elim disjE exE conjE)
    fix t :: real assume t: "0 < t" "t \<le> 300" "advance_period d n = nat \<lceil>t\<rceil>"
    have "1 \<le> \<lceil>t\<rceil>" using t(1) by linarith
    moreover have "\<lceil>t\<rceil> \<le> 300" using t(2) by (simp add: ceiling_le_iff)
    ultimately show ?thesis unfolding t(3) by linarith
  qed simp
qed


lemma adjusted_duration_cong:
  "energyLevelDuration st = energyLevelDuration st' \<Longrightarrow>
     adjusted_duration st a = adjusted_duration st' a"
  by (simp add: adjusted_duration_def)

lemma reaches_ceiling: "0 < t \<Longrightarrow> (t \<le> real m) = (nat \<lceil>t\<rceil> \<le> m)"
proof -
  assume "0 < t"
  have "(t \<le> real m) = (\<lceil>t\<rceil> \<le> int m)" by (simp add: ceiling_le_iff)
  also have "\<dots> = (nat \<lceil>t\<rceil> \<le> m)" by linarith
  finally show ?thesis .
qed

lemma nominal_check_duration:
  "energyLevelDuration (nominal_check (begin_tick st)) = energyLevelDuration st"
  by (simp add: nominal_check_def begin_tick_def next_level_def)

lemma never_both_fire:
  assumes "energyLevelDuration st = 300"
  shows "\<not> (nominal_fires (begin_tick st)
           \<and> adjusted_fires (nominal_check (begin_tick st)) (ChemicalOrbitals_audioIntensity d n))"
proof
  assume both: "nominal_fires (begin_tick st)
           \<and> adjusted_fires (nominal_check (begin_tick st)) (ChemicalOrbitals_audioIntensity d n)"
  then have z: "energyLevelTimer (nominal_check (begin_tick st)) = 0"
    by (simp add: nominal_check_def next_level_def)
  have dur: "energyLevelDuration (nominal_check (begin_tick st)) = 300"
    by (simp add: nominal_check_duration assms)
  from adjusted_duration_cases [OF dur, of d n] both z show False
    by (auto simp add: adjusted_fires_def js_ge_def)
qed

lemma energy_cycle_step:
  assumes dur: "energyLevelDuration st = 300"
      and t: "energyLevelTimer st < advance_period d n"
  shows "energyLevelTimer (adjusted_check (ChemicalOrbitals_audioIntensity d n) (nominal_check (begin_tick st)))
           = (if Suc (energyLevelTimer st) = advance_period d n then 0 else Suc (energyLevelTimer st))"
    and "currentEnergyLevel (adjusted_check (ChemicalOrbitals_audioIntensity d n) (nominal_check (begin_tick st)))
           = (if Suc (energyLevelTimer st) = advance_period d n
              then currentEnergyLevel st mod 6 + 1 else currentEnergyLevel st)"
proof -
  let ?ai = "ChemicalOrbitals_audioIntensity d n"
  let ?P = "advance_period d n"
  let ?s1 = "begin_tick st"
  let ?s2 = "nominal_check ?s1"
  have P300: "?P \<le> 300" using advance_period_bounds [of d n] by simp
  have dur2: "energyLevelDuration ?s2 = 300" by (simp add: nominal_check_duration dur)
  have nf: "nominal_fires ?s1 = (Suc (energyLevelTimer st) = 300)"
    using t P300 by (auto simp add: nominal_fires_def begin_tick_def dur)
  have af: "\<not> nominal_fires ?s1 \<Longrightarrow>
              adjusted_fires ?s2 ?ai = (Suc (energyLevelTimer st) = ?P \<and> ?P < 300)"
  proof -
    assume n: "\<not> nominal_fires ?s1"
    then have s2: "?s2 = ?s1" by (simp add: nominal_check_def)
    have tm: "energyLevelTimer ?s1 = Suc (energyLevelTimer st)" by (simp add: begin_tick_def)
    from n nf have ne: "Suc (energyLevelTimer st) \<noteq> 300" by simp
    from adjusted_duration_cases [OF dur2, of d n] show ?thesis
    proof (elim disjE exE conjE)
      assume "adjusted_duration ?s2 ?ai = NaN" "?P = 300"
      then show ?thesis using ne by (simp add: adjusted_fires_def js_ge_def)
    next
      fix u :: real
      assume u: "adjusted_duration ?s2 ?ai = Finite u" "0 < u" "u \<le> 300" "?P = nat \<lceil>u\<rceil>"
      have u1: "adjusted_duration ?s1 ?ai = Finite u" using u(1) s2 by simp
      have "adjusted_fires ?s2 ?ai = (u \<le> real (Suc (energyLevelTimer st)))"
        unfolding s2 adjusted_fires_def js_ge_def u1 tm by simp
      also have "\<dots> = (?P \<le> Suc (energyLevelTimer st))"
        unfolding u(4) by (rule reaches_ceiling [OF u(2)])
      also have "\<dots> = (Suc (energyLevelTimer st) = ?P \<and> ?P < 300)"
        using t P300 ne by auto
      finally show ?thesis .
    qed
  qed
  show "energyLevelTimer (adjusted_check ?ai ?s2)
           = (if Suc (energyLevelTimer st) = ?P then 0 else Suc (energyLevelTimer st))"
  proof (cases "nominal_fires ?s1")
    case True
    with never_both_fire [OF dur, of d n] have "\<not> adjusted_fires ?s2 ?ai" by simp
    moreover from True nf t P300 have "Suc (energyLevelTimer st) = ?P" by simp
    ultimately show ?thesis using True
      by (simp add: adjusted_check_def nominal_check_def next_level_def)
  next
    case False
    then show ?thesis using af [OF False] nf t P300
      by (auto simp add: adjusted_check_def nominal_check_def next_level_def begin_tick_def)
  qed
  show "currentEnergyLevel (adjusted_check ?ai ?s2)
           = (if Suc (energyLevelTimer st) = ?P
              then currentEnergyLevel st mod 6 + 1 else currentEnergyLevel st)"
  proof (cases "nominal_fires ?s1")
    case True
    with never_both_fire [OF dur, of d n] have "\<not> adjusted_fires ?s2 ?ai" by simp
    moreover from True nf t P300 have "Suc (energyLevelTimer st) = ?P" by simp
    ultimately show ?thesis using True
      by (simp add: adjusted_check_def nominal_check_def next_level_def begin_tick_def
          MAX_ENERGY_LEVEL_def)
  next
    case False
    then show ?thesis using af [OF False] nf t P300
      by (auto simp add: adjusted_check_def nominal_check_def next_level_def begin_tick_def
          MAX_ENERGY_LEVEL_def)
  qed
qed

lemma updateElectrons_fields:
  "energyLevelTimer (ChemicalOrbitals_updateElectrons a b st) = energyLevelTimer st"
  "currentEnergyLevel (ChemicalOrbitals_updateElectrons a b st) = currentEnergyLevel st"
  "energyLevelDuration (ChemicalOrbitals_updateElectrons a b st) = energyLevelDuration st"
  "ChemicalOrbitals.time (ChemicalOrbitals_updateElectrons a b st) = ChemicalOrbitals.time st"
  "ChemicalOrbitals.ctx (ChemicalOrbitals_updateElectrons a b st) = ChemicalOrbitals.ctx st"
  "length (electrons (ChemicalOrbitals_updateElectrons a b st)) = length (electrons st)"
  by (simp_all add: ChemicalOrbitals_updateElectrons_def Let_def)

lemma energy_cycle_fields:
  "energyLevelDuration (adjusted_check a (nominal_check (begin_tick st))) = energyLevelDuration st"
  "ChemicalOrbitals.time (adjusted_check a (nominal_check (begin_tick st))) = ChemicalOrbitals.time st + 1"
  "ChemicalOrbitals.ctx (adjusted_check a (nominal_check (begin_tick st))) = ChemicalOrbitals.ctx st"
  "electrons (adjusted_check a (nominal_check (begin_tick st))) = electrons st"
  by (simp_all add: adjusted_check_def nominal_check_def begin_tick_def next_level_def)

lemma chem_render_fields:
  "energyLevelTimer (renderer (ChemicalOrbitals_render st d n))
     = energyLevelTimer (adjusted_check (ChemicalOrbitals_audioIntensity d n) (nominal_check (begin_tick st)))"
  "currentEnergyLevel (renderer (ChemicalOrbitals_render st d n))
     = currentEnergyLevel (adjusted_check (ChemicalOrbitals_audioIntensity d n) (nominal_check (begin_tick st)))"
  "energyLevelDuration (renderer (ChemicalOrbitals_render st d n)) = energyLevelDuration st"
  "ChemicalOrbitals.time (renderer (ChemicalOrbitals_render st d n)) = ChemicalOrbitals.time st + 1"
  "length (electrons (renderer (ChemicalOrbitals_render st d n))) = length (electrons st)"
  by (simp_all add: ChemicalOrbitals_render_def Let_def updateElectrons_fields energy_cycle_fields
      split: option.splits)

lemma chem_ticks_electrons:
  "length (electrons (ChemicalOrbitals_ticks k d n st)) = length (electrons st)"
  by (induction k) (simp_all add: chem_render_fields)

lemma next_level_of_closed_form: "(q mod 6 + 1) mod 6 + 1 = Suc q mod 6 + (1::nat)"
  by (simp add: mod_Suc_eq)

lemma chem_ticks_closed_form:
  assumes "energyLevelDuration st = 300" and "energyLevelTimer st = 0" and "currentEnergyLevel st = 1"
  shows "energyLevelDuration (ChemicalOrbitals_ticks k d n st) = 300
       \<and> energyLevelTimer (ChemicalOrbitals_ticks k d n st) = k mod advance_period d n
       \<and> currentEnergyLevel (ChemicalOrbitals_ticks k d n st) = (k div advance_period d n) mod 6 + 1"
proof (induction k)
  case 0
  then show ?case using assms by simp
next
  case (Suc k)
  let ?P = "advance_period d n"
  let ?s = "ChemicalOrbitals_ticks k d n st"
  have P: "0 < ?P" using advance_period_bounds [of d n] by simp
  from Suc have dur: "energyLevelDuration ?s = 300"
    and tm: "energyLevelTimer ?s = k mod ?P"
    and lv: "currentEnergyLevel ?s = (k div ?P) mod 6 + 1" by simp_all
  have lt: "energyLevelTimer ?s < ?P" using P tm by simp
  note step = energy_cycle_step [OF dur lt]
  have a: "energyLevelDuration (ChemicalOrbitals_ticks (Suc k) d n st) = 300"
    by (simp add: chem_render_fields dur)
  have b: "energyLevelTimer (ChemicalOrbitals_ticks (Suc k) d n st) = Suc k mod ?P"
    by (simp add: chem_render_fields step tm mod_Suc)
  have c: "currentEnergyLevel (ChemicalOrbitals_ticks (Suc k) d n st) = (Suc k div ?P) mod 6 + 1"
  proof (cases "Suc (k mod ?P) = ?P")
    case True
    then have "Suc k mod ?P = 0" by (simp add: mod_Suc)
    then have "Suc k div ?P = Suc (k div ?P)" by (simp add: div_Suc)
    then show ?thesis using True
      by (simp add: chem_render_fields step tm lv mod_Suc_eq)
  next
    case False
    then have "Suc k mod ?P \<noteq> 0" by (simp add: mod_Suc)
    then have "Suc k div ?P = k div ?P" by (simp add: div_Suc)
    then show ?thesis using False
      by (simp add: chem_render_fields step tm lv)
  qed
  from a b c show ?case by simp
qed

lemma level_changes_on_period:
  assumes "energyLevelDuration st = 300" and "energyLevelTimer st = 0" and "currentEnergyLevel st = 1"
      and "currentEnergyLevel (ChemicalOrbitals_ticks (Suc k) d n st)
             \<noteq> currentEnergyLevel (ChemicalOrbitals_ticks k d n st)"
  shows "advance_period d n dvd Suc k"
proof (rule ccontr)
  assume "\<not> advance_period d n dvd Suc k"
  then have "Suc k mod advance_period d n \<noteq> 0" by (simp add: dvd_eq_mod_eq_0)
  then have "Suc k div advance_period d n = k div advance_period d n" by (simp add: div_Suc)
  with assms(4) show False
    unfolding chem_ticks_closed_form [OF assms(1-3), THEN conjunct2, THEN conjunct2] by simp
qed

lemma audioIntensity_128: "ChemicalOrbitals_audioIntensity (replicate 1024 128) 1024 = Finite (128 / 255)"
proof -
  have "sum_loop (replicate 1024 128) 0 (int 1024) 0 = 0 + nat (int 1024 - 0) * unat (128 :: 8 word)"
    by (rule sum_loop_replicate) simp_all
  then have "sum_loop (replicate 1024 (128 :: 8 word)) 0 1024 0 = 131072" by simp
  then show ?thesis by (simp add: ChemicalOrbitals_audioIntensity_def INV_255_def)
qed

lemma advance_period_128: "advance_period (replicate 1024 128) 1024 = 150"
  by (simp add: advance_period_def audioIntensity_128)

lemma chem_constructed:
  assumes "ChemicalOrbitals_constructor canvas w rs = Inr st0"
  shows "energyLevelDuration st0 = 300" and "energyLevelTimer st0 = 0" and "currentEnergyLevel st0 = 1"
    and "length (electrons st0) = nat \<lfloor>50 * quality_for_area (real (width canvas) * real (height canvas))\<rfloor>"
    and "ChemicalOrbitals.qualityScale st0 = quality_for_area (real (width canvas) * real (height canvas))"
  using assms unfolding chem_constructor_unfold by (auto simp add: length_new_electrons)

lemma orbitals_1000_constructed:
  "ChemicalOrbitals_constructor surface_1000 1 (constant_source 0) = Inr orbitals_1000"
  unfolding orbitals_1000_def chem_constructor_unfold by simp

lemma level_in_range: "1 \<le> q mod 6 + (1::nat) \<and> q mod 6 + 1 \<le> 6 \<and> (q mod 6 + 1) mod 6 + 1 \<noteq> q mod 6 + 1"
proof -
  have "q mod 6 < 6" by simp
  then consider "q mod 6 = 0" | "q mod 6 = 1" | "q mod 6 = 2" | "q mod 6 = 3" | "q mod 6 = 4" | "q mod 6 = 5"
    by linarith
  then show ?thesis by cases simp_all
qed

lemma window_reached:
  assumes "energyLevelDuration st = 300" and "advance_period d n \<le> m"
  shows "js_ge (Finite (real m)) (adjusted_duration st (ChemicalOrbitals_audioIntensity d n)) \<or> 300 \<le> m"
  using adjusted_duration_cases [OF assms(1), of d n]
proof (elim disjE exE conjE)
  assume "advance_period d n = 300"
  with assms(2) show ?thesis by simp
next
  fix t :: real
  assume t: "adjusted_duration st (ChemicalOrbitals_audioIntensity d n) = Finite t" "0 < t"
    "advance_period d n = nat \<lceil>t\<rceil>"
  from assms(2) have "nat \<lceil>t\<rceil> \<le> m" unfolding t(3) .
  then have "t \<le> real m" using reaches_ceiling [OF t(2), of m] by blast
  then show ?thesis by (simp add: js_ge_def t(1))
qed

text \<open>
  Claim C1. From construction, under a constant buffer: the level starts at \<open>1\<close> and
  stays within \<open>1..6\<close>; a tick leaves it or moves it to its successor in the cycle
  \<open>1, 2, 3, 4, 5, 6, 1\<close>, which is never the level itself; the nominal comparison and the
  audio-adjusted comparison never both hold in one \<open>render\<close>; and between two ticks that
  change the level, the elapsed ticks reach the adjusted duration (or the nominal \<open>300\<close>,
  when the adjusted duration is \<open>NaN\<close> for a zero-length buffer).
\<close>

theorem energy_level_advances_in_order:
  assumes "ChemicalOrbitals_constructor canvas w rs = Inr st0"
  shows "currentEnergyLevel st0 = 1
    \<and> 1 \<le> currentEnergyLevel (ChemicalOrbitals_ticks k d n st0)
    \<and> currentEnergyLevel (ChemicalOrbitals_ticks k d n st0) \<le> 6
    \<and> (currentEnergyLevel (ChemicalOrbitals_ticks (Suc k) d n st0)
          = currentEnergyLevel (ChemicalOrbitals_ticks k d n st0)
        \<or> currentEnergyLevel (ChemicalOrbitals_ticks (Suc k) d n st0)
          = currentEnergyLevel (ChemicalOrbitals_ticks k d n st0) mod 6 + 1)
    \<and> currentEnergyLevel (ChemicalOrbitals_ticks k d n st0) mod 6 + 1
          \<noteq> currentEnergyLevel (ChemicalOrbitals_ticks k d n st0)
    \<and> \<not> (nominal_fires (begin_tick (ChemicalOrbitals_ticks k d n st0))
           \<and> adjusted_fires (nominal_check (begin_tick (ChemicalOrbitals_ticks k d n st0)))
                (ChemicalOrbitals_audioIntensity d n))
    \<and> (i < j
        \<and> currentEnergyLevel (ChemicalOrbitals_ticks (Suc i) d n st0)
            \<noteq> currentEnergyLevel (ChemicalOrbitals_ticks i d n st0)
        \<and> currentEnergyLevel (ChemicalOrbitals_ticks (Suc j) d n st0)
            \<noteq> currentEnergyLevel (ChemicalOrbitals_ticks j d n st0)
        \<longrightarrow> js_ge (Finite (real (j - i)))
              (adjusted_duration st0 (ChemicalOrbitals_audioIntensity d n))
            \<or> 300 \<le> j - i)"
proof -
  note s = chem_constructed(1-3) [OF assms]
  note cf = chem_ticks_closed_form [OF s]
  let ?P = "advance_period d n"
  let ?L = "\<lambda>k. currentEnergyLevel (ChemicalOrbitals_ticks k d n st0)"
  have L: "?L k = (k div ?P) mod 6 + 1" for k using cf [of k d n] by simp
  have range: "1 \<le> ?L k \<and> ?L k \<le> 6 \<and> ?L k mod 6 + 1 \<noteq> ?L k"
    unfolding L using level_in_range [of "k div ?P"] by simp
  have step: "?L (Suc k) = ?L k \<or> ?L (Suc k) = ?L k mod 6 + 1"
  proof (cases "Suc k mod ?P = 0")
    case True
    then have "Suc k div ?P = Suc (k div ?P)" by (simp add: div_Suc)
    then show ?thesis unfolding L by (simp add: mod_Suc_eq)
  next
    case False
    then have "Suc k div ?P = k div ?P" by (simp add: div_Suc)
    then show ?thesis unfolding L by simp
  qed
  have dur: "energyLevelDuration (ChemicalOrbitals_ticks k d n st0) = 300" using cf [of k d n] by simp
  note once = never_both_fire [OF dur, of d n]
  have window: "i < j \<and> ?L (Suc i) \<noteq> ?L i \<and> ?L (Suc j) \<noteq> ?L j
        \<longrightarrow> js_ge (Finite (real (j - i))) (adjusted_duration st0 (ChemicalOrbitals_audioIntensity d n))
            \<or> 300 \<le> j - i"
  proof
    assume a: "i < j \<and> ?L (Suc i) \<noteq> ?L i \<and> ?L (Suc j) \<noteq> ?L j"
    then have "?P dvd Suc i" and "?P dvd Suc j"
      using level_changes_on_period [OF s] by blast+
    then have "?P dvd Suc j - Suc i" by (rule dvd_diff_nat [rotated])
    then have "?P dvd j - i" by simp
    moreover have "0 < j - i" using a by simp
    ultimately have "?P \<le> j - i" by (rule dvd_imp_le)
    then show "js_ge (Finite (real (j - i))) (adjusted_duration st0 (ChemicalOrbitals_audioIntensity d n))
            \<or> 300 \<le> j - i"
      by (rule window_reached [OF s(1)])
  qed
  from s(3) range step once window show ?thesis by blast
qed

lemma levels_128:
  "currentEnergyLevel (ChemicalOrbitals_ticks k (replicate 1024 128) 1024 orbitals_1000) = (k div 150) mod 6 + 1"
  using chem_ticks_closed_form [OF chem_constructed(1-3) [OF orbitals_1000_constructed],
      of k "replicate 1024 128" 1024]
  by (simp add: advance_period_128)

text \<open>
  Claim C1, a witness: the claim on the \<open>1000 \<times> 1000\<close> surface with a
  1024-sample buffer of constant value \<open>128\<close>: the level changes at ticks \<open>150\<close> and
  \<open>300\<close>, and the \<open>150\<close> ticks between them reach the adjusted duration.
\<close>

theorem energy_level_advances_in_order_witness:
  "ChemicalOrbitals_constructor surface_1000 1 (constant_source 0) = Inr orbitals_1000
   \<and> (149::nat) < 299
   \<and> currentEnergyLevel (ChemicalOrbitals_ticks 149 (replicate 1024 128) 1024 orbitals_1000) = 1
   \<and> currentEnergyLevel (ChemicalOrbitals_ticks (Suc 149) (replicate 1024 128) 1024 orbitals_1000) = 2
   \<and> currentEnergyLevel (ChemicalOrbitals_ticks 299 (replicate 1024 128) 1024 orbitals_1000) = 2
   \<and> currentEnergyLevel (ChemicalOrbitals_ticks (Suc 299) (replicate 1024 128) 1024 orbitals_1000) = 3
   \<and> js_ge (Finite (real (299 - 149)))
        (adjusted_duration orbitals_1000 (ChemicalOrbitals_audioIntensity (replicate 1024 128) 1024))"
proof -
  have l: "currentEnergyLevel (ChemicalOrbitals_ticks 149 (replicate 1024 128) 1024 orbitals_1000) = 1"
    "currentEnergyLevel (ChemicalOrbitals_ticks (Suc 149) (replicate 1024 128) 1024 orbitals_1000) = 2"
    "currentEnergyLevel (ChemicalOrbitals_ticks 299 (replicate 1024 128) 1024 orbitals_1000) = 2"
    "currentEnergyLevel (ChemicalOrbitals_ticks (Suc 299) (replicate 1024 128) 1024 orbitals_1000) = 3"
    unfolding levels_128 by simp_all
  from energy_level_advances_in_order [OF orbitals_1000_constructed, of 149 "replicate 1024 128" 1024 149 299] l
  have "js_ge (Finite (real (299 - 149)))
        (adjusted_duration orbitals_1000 (ChemicalOrbitals_audioIntensity (replicate 1024 128) 1024))"
    by simp
  with l orbitals_1000_constructed show ?thesis by simp
qed

lemma change_on_multiple:
  assumes "0 < P"
  shows "((Suc k div P) mod 6 + 1 \<noteq> (k div P) mod 6 + (1::nat)) = (P dvd Suc k)"
proof (cases "Suc k mod P = 0")
  case True
  then have "Suc k div P = Suc (k div P)" by (simp add: div_Suc)
  moreover have "Suc (k div P) mod 6 \<noteq> (k div P) mod 6"
    using level_in_range [of "k div P"] by (simp add: mod_Suc_eq)
  ultimately show ?thesis using True by (simp add: dvd_eq_mod_eq_0)
next
  case False
  then have "Suc k div P = k div P" by (simp add: div_Suc)
  then show ?thesis using False by (simp add: dvd_eq_mod_eq_0)
qed

text \<open>
  Claim C2, as stated, fails: with the constant buffer of value \<open>128\<close> the level is
  already \<open>2\<close> after \<open>150\<close> ticks, and \<open>3\<close> after \<open>300\<close>.
\<close>

theorem constant_128_advances_at_150:
  "currentEnergyLevel (ChemicalOrbitals_ticks 150 (replicate 1024 128) 1024 orbitals_1000) = 2
   \<and> currentEnergyLevel (ChemicalOrbitals_ticks 300 (replicate 1024 128) 1024 orbitals_1000) = 3"
  unfolding levels_128 by simp

text \<open>
  Claim C2, amended. On a \<open>1000 \<times> 1000\<close> surface the quality scale is \<open>1\<close>. With a
  1024-sample buffer of constant value \<open>128\<close> the level after \<open>k\<close> ticks is
  \<open>(k div 150) mod 6 + 1\<close>: it changes exactly at the multiples of \<open>150\<close>, so within
  \<open>300\<close> ticks twice, from \<open>1\<close> to \<open>2\<close> at tick \<open>150\<close> and from \<open>2\<close> to \<open>3\<close> at tick
  \<open>300\<close>. The electron pool holds \<open>50\<close> electrons at every tick.
\<close>

theorem constant_128_levels:
  "(case ChemicalOrbitals_constructor \<lparr>width = 1000, height = 1000, getContext_2d = cx\<rparr> w rs of
      Inl e \<Rightarrow> False
    | Inr st0 \<Rightarrow>
        ChemicalOrbitals.qualityScale st0 = 1
        \<and> currentEnergyLevel (ChemicalOrbitals_ticks k (replicate 1024 128) 1024 st0)
            = (k div 150) mod 6 + 1
        \<and> (currentEnergyLevel (ChemicalOrbitals_ticks (Suc k) (replicate 1024 128) 1024 st0)
             \<noteq> currentEnergyLevel (ChemicalOrbitals_ticks k (replicate 1024 128) 1024 st0))
            = (150 dvd Suc k)
        \<and> currentEnergyLevel (ChemicalOrbitals_ticks 149 (replicate 1024 128) 1024 st0) = 1
        \<and> currentEnergyLevel (ChemicalOrbitals_ticks 150 (replicate 1024 128) 1024 st0) = 2
        \<and> currentEnergyLevel (ChemicalOrbitals_ticks 299 (replicate 1024 128) 1024 st0) = 2
        \<and> currentEnergyLevel (ChemicalOrbitals_ticks 300 (replicate 1024 128) 1024 st0) = 3
        \<and> length (electrons (ChemicalOrbitals_ticks k (replicate 1024 128) 1024 st0)) = 50)"
proof -
  obtain st0 where c: "ChemicalOrbitals_constructor \<lparr>width = 1000, height = 1000, getContext_2d = cx\<rparr> w rs = Inr st0"
    unfolding chem_constructor_unfold by simp
  note s = chem_constructed [OF c]
  have L: "currentEnergyLevel (ChemicalOrbitals_ticks k (replicate 1024 128) 1024 st0) = (k div 150) mod 6 + 1" for k
    using chem_ticks_closed_form [OF s(1-3), of k "replicate 1024 128" 1024]
    by (simp add: advance_period_128)
  have q: "ChemicalOrbitals.qualityScale st0 = 1"
    unfolding s(5) by (simp add: quality_for_area_def)
  have e: "length (electrons (ChemicalOrbitals_ticks k (replicate 1024 128) 1024 st0)) = 50"
    unfolding chem_ticks_electrons s(4) by (simp add: quality_for_area_def)
  have ch: "(currentEnergyLevel (ChemicalOrbitals_ticks (Suc k) (replicate 1024 128) 1024 st0)
             \<noteq> currentEnergyLevel (ChemicalOrbitals_ticks k (replicate 1024 128) 1024 st0))
            = (150 dvd Suc k)"
    unfolding L by (rule change_on_multiple) simp
  have v: "currentEnergyLevel (ChemicalOrbitals_ticks 149 (replicate 1024 128) 1024 st0) = 1"
    "currentEnergyLevel (ChemicalOrbitals_ticks 150 (replicate 1024 128) 1024 st0) = 2"
    "currentEnergyLevel (ChemicalOrbitals_ticks 299 (replicate 1024 128) 1024 st0) = 2"
    "currentEnergyLevel (ChemicalOrbitals_ticks 300 (replicate 1024 128) 1024 st0) = 3"
    unfolding L by simp_all
  show ?thesis unfolding c sum.case using q L ch v e by blast
qed

section \<open>The particle pool of the kaleidoscope\<close>

text \<open>
  What one call of \<open>updateParticles\<close> does to a particle of the pool: its life goes
  down by \<open>0.005\<close>; when the decayed life is at most \<open>0\<close>, or the moved particle is
  farther from the center than \<open>0.6 \<times> maxRadius\<close>, the particle is reseeded with life
  \<open>1\<close>, a position inside the wedge and within radius \<open>50\<close>, velocity components in
  \<open>[-1, 1]\<close>, a hue in \<open>[0, 360)\<close> and the size \<open>5 + random \<times> 15 + bass \<times> 10\<close>.
\<close>

lemma motion_life: "life (particle_motion sa a b p) = js_sub (life p) (Finite 0.005)"
  by (simp add: particle_motion_def Let_def)

lemma update_particle_due:
  "respawn_due mr (js_sub (life p) (Finite 0.005)) (particle_radius a b p) \<Longrightarrow>
     update_particle sa mr a b rs p = (respawn sa b rs (particle_motion sa a b p), skip 6 rs)"
  by (simp add: update_particle_def Let_def motion_life)

lemma update_particle_not_due:
  "\<not> respawn_due mr (js_sub (life p) (Finite 0.005)) (particle_radius a b p) \<Longrightarrow>
     update_particle sa mr a b rs p = (particle_motion sa a b p, rs)"
  by (simp add: update_particle_def Let_def motion_life)

lemma update_each_Cons:
  "update_each sa mr a b rs (p # ps) =
     (fst (update_particle sa mr a b rs p)
        # fst (update_each sa mr a b (snd (update_particle sa mr a b rs p)) ps),
      snd (update_each sa mr a b (snd (update_particle sa mr a b rs p)) ps))"
  by (simp add: Let_def case_prod_beta)

lemma update_each_length: "length (fst (update_each sa mr a b rs ps)) = length ps"
  by (induction ps arbitrary: rs) (simp_all add: update_each_Cons del: update_each.simps(2))

lemma update_particle_life:
  "life (fst (update_particle sa mr a b rs p)) =
     (if respawn_due mr (js_sub (life p) (Finite 0.005)) (particle_radius a b p)
      then Finite 1 else js_sub (life p) (Finite 0.005))"
  by (cases "respawn_due mr (js_sub (life p) (Finite 0.005)) (particle_radius a b p)")
     (simp_all add: update_particle_due update_particle_not_due motion_life respawn_def Let_def)

lemma update_each_life:
  "i < length ps \<Longrightarrow>
     life (fst (update_each sa mr a b rs ps) ! i) =
       (if respawn_due mr (js_sub (life (ps ! i)) (Finite 0.005)) (particle_radius a b (ps ! i))
        then Finite 1 else js_sub (life (ps ! i)) (Finite 0.005))"
proof (induction ps arbitrary: i rs)
  case Nil
  then show ?case by simp
next
  case (Cons p ps)
  show ?case
  proof (cases i)
    case 0
    show ?thesis unfolding 0 update_each_Cons by (simp add: update_particle_life)
  next
    case (Suc j)
    with Cons.prems have j: "j < length ps" by simp
    from Cons.IH [OF j, of "snd (update_particle sa mr a b rs p)"] show ?thesis
      unfolding Suc update_each_Cons by simp
  qed
qed

lemma respawn_fields:
  "Particle.x (respawn (Finite w) b rs p) = Finite (cos (rs 0 * w) * (rs 1 * 50))"
  "Particle.y (respawn (Finite w) b rs p) = Finite (sin (rs 0 * w) * (rs 1 * 50))"
  "vx (respawn (Finite w) b rs p) = Finite ((rs 2 - 0.5) * 2)"
  "vy (respawn (Finite w) b rs p) = Finite ((rs 3 - 0.5) * 2)"
  "life (respawn (Finite w) b rs p) = Finite 1"
  "hue (respawn (Finite w) b rs p) = Finite (rs 4 * 360)"
  "size_p (respawn (Finite w) b rs p) = js_add (Finite (5 + rs 5 * 15)) (js_mul b (Finite 10))"
  by (simp_all add: respawn_def Let_def)

lemma updateParticles_particles:
  "particles (Kaleidoscope_updateParticles a b st) =
     fst (update_each (js_div (Finite (pi * 2)) (segments st)) (Kaleidoscope.maxRadius st) a b
            (Kaleidoscope.rand_source st) (particles st))"
  "Kaleidoscope.rand_source (Kaleidoscope_updateParticles a b st) =
     snd (update_each (js_div (Finite (pi * 2)) (segments st)) (Kaleidoscope.maxRadius st) a b
            (Kaleidoscope.rand_source st) (particles st))"
  by (simp_all add: Kaleidoscope_updateParticles_def Let_def case_prod_beta)

lemma respawn_reseeds:
  assumes u: "unit_interval rs" and s: "12 \<le> s"
  shows "\<exists>\<theta> \<rho> h u.
           0 \<le> \<theta> \<and> \<theta> < pi * 2 / s \<and> 0 \<le> \<rho> \<and> \<rho> < 50
         \<and> Particle.x (respawn (js_div (Finite (pi * 2)) (Finite s)) b rs p) = Finite (cos \<theta> * \<rho>)
         \<and> Particle.y (respawn (js_div (Finite (pi * 2)) (Finite s)) b rs p) = Finite (sin \<theta> * \<rho>)
         \<and> (\<exists>v. vx (respawn (js_div (Finite (pi * 2)) (Finite s)) b rs p) = Finite v \<and> - 1 \<le> v \<and> v \<le> 1)
         \<and> (\<exists>v. vy (respawn (js_div (Finite (pi * 2)) (Finite s)) b rs p) = Finite v \<and> - 1 \<le> v \<and> v \<le> 1)
         \<and> life (respawn (js_div (Finite (pi * 2)) (Finite s)) b rs p) = Finite 1
         \<and> hue (respawn (js_div (Finite (pi * 2)) (Finite s)) b rs p) = Finite h \<and> 0 \<le> h \<and> h < 360
         \<and> 0 \<le> u \<and> u < 1
         \<and> size_p (respawn (js_div (Finite (pi * 2)) (Finite s)) b rs p)
             = js_add (Finite (5 + u * 15)) (js_mul b (Finite 10))"
proof -
  have r: "0 \<le> rs k" "rs k < 1" for k using u by (simp_all add: unit_interval_def)
  have w: "0 < pi * 2 / s" using s by simp
  have d: "js_div (Finite (pi * 2)) (Finite s) = Finite (pi * 2 / s)" using s by simp
  have t1: "0 \<le> rs 0 * (pi * 2 / s)"
    by (rule mult_nonneg_nonneg [OF r(1) less_imp_le [OF w]])
  have "rs 0 * (pi * 2 / s) < 1 * (pi * 2 / s)"
    by (rule mult_strict_right_mono [OF r(2) w])
  then have t2: "rs 0 * (pi * 2 / s) < pi * 2 / s" by simp
  note t = t1 t2
  have rho: "0 \<le> rs 1 * 50" "rs 1 * 50 < 50" using r [of 1] by simp_all
  have v2: "- 1 \<le> (rs 2 - 0.5) * 2" "(rs 2 - 0.5) * 2 \<le> 1" using r [of 2] by simp_all
  have v3: "- 1 \<le> (rs 3 - 0.5) * 2" "(rs 3 - 0.5) * 2 \<le> 1" using r [of 3] by simp_all
  have h: "0 \<le> rs 4 * 360" "rs 4 * 360 < 360" using r [of 4] by simp_all
  show ?thesis
    unfolding d respawn_fields
    using t rho v2 v3 h r [of 5] by blast
qed

lemma updateParticles_life:
  assumes "i < length (particles st)"
  shows "length (particles (Kaleidoscope_updateParticles a b st)) = length (particles st)"
    and "life (particles (Kaleidoscope_updateParticles a b st) ! i) =
       (if respawn_due (Kaleidoscope.maxRadius st)
             (js_sub (life (particles st ! i)) (Finite 0.005))
             (particle_radius a b (particles st ! i))
        then Finite 1 else js_sub (life (particles st ! i)) (Finite 0.005))"
  unfolding updateParticles_particles
  by (rule update_each_length, rule update_each_life [OF assms])

lemma hueOffset_NaN_persists:
  "hueOffset st = NaN \<Longrightarrow> hueOffset (Kaleidoscope_ticks k input st) = NaN"
  by (induction k) (simp_all add: kal_render_hueOffset)

text \<open>
  Claim C6 at a buffer of length zero. \<open>render\<close> runs \<open>updateParticles\<close> last, after
  its draw routines, and the first of these, \<open>drawSegment\<close>, formats the hue offset into
  the colour of a gradient stop. With \<open>bufferLength = 0\<close> the bass intensity is \<open>NaN\<close>
  (the band is empty and its sum is divided by the count \<open>0\<close>), \<open>render\<close> writes \<open>NaN\<close>
  into the hue offset before it draws, and the hue offset is \<open>NaN\<close> after every later
  \<open>render\<close> as well, whatever the buffers.
\<close>

theorem zero_length_buffer_poisons_hue:
  "Kaleidoscope_bassIntensity dataArray 0 = NaN
   \<and> hueOffset (renderer (Kaleidoscope_render st dataArray 0)) = NaN
   \<and> hueOffset (Kaleidoscope_ticks k input (renderer (Kaleidoscope_render st dataArray 0))) = NaN"
proof -
  have bass: "Kaleidoscope_bassIntensity dataArray 0 = NaN"
    by (simp add: Kaleidoscope_bassIntensity_def Kaleidoscope_getFrequencyBandIntensity_def
        sum_loop.simps signed_infinity_def)
  have hue: "hueOffset (renderer (Kaleidoscope_render st dataArray 0)) = NaN"
    unfolding kal_render_hueOffset bass by (simp add: js_add_NaN)
  from bass hue hueOffset_NaN_persists [OF hue, of k input] show ?thesis by simp
qed

end
